theory Spec2Isabelle
  imports Complex_Main
begin

chapter \<open>The simulation kernel of edgin_around\<close>

text \<open>
  A shallow embedding of the geometry, the entities, the tasks and the animation
  dispatch of the repository, followed by the theorems about them. Classes are records or
  datatypes, methods are functions that return what they change, Python exceptions are
  values, and floats are exact reals. Every definition of a part whose module is among the
  sources follows that module line by line; the parts whose module is absent say so.
\<close>


section \<open>Python exceptions and library functions\<close>

text \<open>
  Exceptions are values: a function that can raise returns \<open>py_error + 'a\<close>, with
  \<open>Inl\<close> the exception raised. Floats are modelled as exact reals, so \<open>math.sqrt\<close> and
  \<open>math.asin\<close> raise \<open>ValueError\<close> exactly outside their real domains, and a float
  division raises \<open>ZeroDivisionError\<close> exactly when the divisor is zero.
\<close>

datatype py_error = ValueError | ZeroDivisionError | KeyError | AttributeError | AssertionError

definition py_sqrt :: "real \<Rightarrow> py_error + real" where
  "py_sqrt x = (if x < 0 then Inl ValueError else Inr (sqrt x))"

definition py_asin :: "real \<Rightarrow> py_error + real" where
  "py_asin x = (if x < - 1 \<or> 1 < x then Inl ValueError else Inr (arcsin x))"

text \<open>
  \<open>math.atan2(y, x)\<close>: the angle in \<open>(-pi, pi]\<close> of the point \<open>(x, y)\<close>; \<open>atan2(0, 0)\<close> is 0.
  Signed zeros do not exist over the reals.
\<close>

definition atan2 :: "real \<Rightarrow> real \<Rightarrow> real" where
  "atan2 y x =
     (if 0 < x then arctan (y / x)
      else if x < 0 then (if 0 \<le> y then arctan (y / x) + pi else arctan (y / x) - pi)
      else if 0 < y then pi / 2
      else if y < 0 then - (pi / 2)
      else 0)"

section \<open>geometry.py\<close>

text \<open>
  \<open>Coordinate\<close> is a position in geographical coordinates (radians), \<open>Point\<close> a position
  in spherical coordinates. Neither constructor validates its arguments.
\<close>

record Coordinate =
  lat :: real
  lon :: real

record Point =
  theta :: real
  phi :: real

text \<open>The static methods of class \<open>Coordinates\<close> that the two position classes use.\<close>

definition spherical_to_cartesian :: "real \<Rightarrow> real \<Rightarrow> real \<Rightarrow> real \<times> real \<times> real" where
  "spherical_to_cartesian r theta' phi' =
     (let z = r * sin theta' * cos phi';
          x = r * sin theta' * sin phi';
          y = r * cos theta'
      in (x, y, z))"

definition spherical_to_geographical_radians :: "real \<Rightarrow> real \<Rightarrow> real \<Rightarrow> real \<times> real \<times> real" where
  "spherical_to_geographical_radians r theta' phi' =
     (let lat' = 0.5 * pi - theta';
          lon' = (if phi' \<le> pi then phi' else phi' - 2.0 * pi)
      in (r, lat', lon'))"

definition geographical_radians_to_spherical :: "real \<Rightarrow> real \<Rightarrow> real \<Rightarrow> real \<times> real \<times> real" where
  "geographical_radians_to_spherical r lat' lon' =
     (let theta' = 0.5 * pi - lat';
          phi' = (if lon' \<ge> 0 then lon' else lon' + 2.0 * pi)
      in (r, theta', phi'))"

text \<open>
  \<open>Coordinate.great_circle_distance_to\<close>: the haversine expression. \<open>sqrt\<close> and \<open>asin\<close>
  are the raising library functions.
\<close>

definition Coordinate_great_circle_distance_to :: "Coordinate \<Rightarrow> Coordinate \<Rightarrow> real \<Rightarrow> py_error + real" where
  "Coordinate_great_circle_distance_to self other radius =
     (let sin1 = sin (0.5 * \<bar>lat self - lat other\<bar>);
          sin2 = sin (0.5 * \<bar>lon self - lon other\<bar>)
      in case py_sqrt (sin1 * sin1 + cos (lat self) * cos (lat other) * sin2 * sin2) of
           Inl e \<Rightarrow> Inl e
         | Inr q \<Rightarrow> (case py_asin q of
                       Inl e \<Rightarrow> Inl e
                     | Inr a \<Rightarrow> Inr (2 * radius * a)))"

text \<open>
  \<open>Coordinate.moved_by\<close>: \<open>distance / radius\<close> raises on a zero radius, \<open>asin\<close> on an
  argument outside \<open>[-1, 1]\<close>.
\<close>

definition Coordinate_moved_by :: "Coordinate \<Rightarrow> real \<Rightarrow> real \<Rightarrow> real \<Rightarrow> py_error + Coordinate" where
  "Coordinate_moved_by self distance bearing radius =
     (if radius = 0 then Inl ZeroDivisionError
      else
        let angular_distance = distance / radius;
            cad = cos angular_distance;
            sad = sin angular_distance;
            cb = cos bearing;
            sb = sin bearing;
            slat1 = sin (lat self);
            clat1 = cos (lat self)
        in case py_asin (slat1 * cad + clat1 * sad * cb) of
             Inl e \<Rightarrow> Inl e
           | Inr lat2 \<Rightarrow>
               (let slat2 = sin lat2;
                    lon2 = lon self + atan2 (sb * sad * clat1) (cad - slat1 * slat2)
                in Inr \<lparr>lat = lat2, lon = lon2\<rparr>))"

text \<open>\<open>Coordinate.to_point\<close> and \<open>Point.to_coordinate\<close>.\<close>

definition to_point :: "Coordinate \<Rightarrow> Point" where
  "to_point self =
     (case geographical_radians_to_spherical 1.0 (lat self) (lon self) of
        (r, theta', phi') \<Rightarrow> \<lparr>theta = theta', phi = phi'\<rparr>)"

definition to_coordinate :: "Point \<Rightarrow> Coordinate" where
  "to_coordinate self =
     (case spherical_to_geographical_radians 1.0 (theta self) (phi self) of
        (r, lat', lon') \<Rightarrow> \<lparr>lat = lat', lon = lon'\<rparr>)"

text \<open>\<open>Point.great_circle_distance_to\<close> and \<open>Point.moved_by\<close> go through the coordinates.\<close>

definition Point_great_circle_distance_to :: "Point \<Rightarrow> Point \<Rightarrow> real \<Rightarrow> py_error + real" where
  "Point_great_circle_distance_to self other radius =
     (let coord1 = to_coordinate self;
          coord2 = to_coordinate other
      in Coordinate_great_circle_distance_to coord1 coord2 radius)"

definition Point_moved_by :: "Point \<Rightarrow> real \<Rightarrow> real \<Rightarrow> real \<Rightarrow> py_error + Point" where
  "Point_moved_by self distance bearing radius =
     (case Coordinate_moved_by (to_coordinate self) distance bearing radius of
        Inl e \<Rightarrow> Inl e
      | Inr c \<Rightarrow> Inr (to_point c))"

text \<open>
  The specification's notion of the central (angular) distance of two points, used to state
  what the haversine expression computes: the angle between the two position vectors on the
  unit sphere, the vectors being those of \<open>spherical_to_cartesian\<close>.
\<close>

definition dot3 :: "real \<times> real \<times> real \<Rightarrow> real \<times> real \<times> real \<Rightarrow> real" where
  "dot3 u v = (case u of (x1, y1, z1) \<Rightarrow> case v of (x2, y2, z2) \<Rightarrow> x1 * x2 + y1 * y2 + z1 * z2)"

definition central_angle :: "Point \<Rightarrow> Point \<Rightarrow> real" where
  "central_angle p q =
     arccos (dot3 (spherical_to_cartesian 1 (theta p) (phi p))
                  (spherical_to_cartesian 1 (theta q) (phi q)))"


text \<open>
  The terrain classes and \<open>ElevationFunction\<close>: only the data, and \<open>get_radius\<close>, which
  the distance queries of the state use.
\<close>

datatype Terrain = Hills Point | Ranges Point | Continents Point

record ElevationFunction =
  radius :: real
  terrain :: "Terrain list"

definition get_radius :: "ElevationFunction \<Rightarrow> real" where
  "get_radius self = radius self"

section \<open>The vocabulary the tasks use\<close>

text \<open>
  The enumerations of \<open>defs\<close>, \<open>features\<close> and \<open>craft\<close>, with the members the
  sources and the specification name. \<open>ActorId\<close> (also written \<open>EntityId\<close>) is a Python
  integer.
\<close>

type_synonym ActorId = int

datatype Hand = LEFT | RIGHT

datatype UpdateVariant = SWAP | MERGE

datatype DamageVariant = HIT | CHOP | SMASH | ATTACK

datatype Claim = PAIN | FOOD | CARGO

datatype Essence = ROCKS | GOLD | LOGS | TOOL | PLANT | HERO

subsection \<open>Inventory\<close>

text \<open>
  Modelled from the spec: the module \<open>inventory\<close> is not among the sources. An inventory
  owns the hand slots LEFT and RIGHT and indexed pocket slots, each holding an item
  reference, a quantity, an essence and a codename. The pockets are a dictionary from
  slot index to entry. The operations are the ones the tasks and the tests call.
\<close>

record EntityInfo =
  entry_id :: ActorId
  entry_essence :: Essence
  entry_quantity :: int
  entry_codename :: string

record Inventory =
  left_hand :: "EntityInfo option"
  right_hand :: "EntityInfo option"
  pockets :: "(int \<times> EntityInfo) list"

definition empty_inventory :: Inventory where
  "empty_inventory = \<lparr>left_hand = None, right_hand = None, pockets = []\<rparr>"

definition get_hand_entry :: "Inventory \<Rightarrow> Hand \<Rightarrow> EntityInfo option" where
  "get_hand_entry inv' hand = (case hand of LEFT \<Rightarrow> left_hand inv' | RIGHT \<Rightarrow> right_hand inv')"

definition get_pocket_entry :: "Inventory \<Rightarrow> int \<Rightarrow> EntityInfo option" where
  "get_pocket_entry inv' index = map_of (pockets inv') index"

definition get_hand :: "Inventory \<Rightarrow> Hand \<Rightarrow> ActorId option" where
  "get_hand inv' hand = map_option entry_id (get_hand_entry inv' hand)"

definition set_hand_entry :: "Inventory \<Rightarrow> Hand \<Rightarrow> EntityInfo option \<Rightarrow> Inventory" where
  "set_hand_entry inv' hand entry =
     (case hand of LEFT \<Rightarrow> inv'\<lparr>left_hand := entry\<rparr> | RIGHT \<Rightarrow> inv'\<lparr>right_hand := entry\<rparr>)"

definition set_pocket_entry :: "Inventory \<Rightarrow> int \<Rightarrow> EntityInfo option \<Rightarrow> Inventory" where
  "set_pocket_entry inv' index entry =
     (let others = filter (\<lambda>p. fst p \<noteq> index) (pockets inv')
      in case entry of
           None \<Rightarrow> inv'\<lparr>pockets := others\<rparr>
         | Some info \<Rightarrow> inv'\<lparr>pockets := (index, info) # others\<rparr>)"

definition store_entry :: "Inventory \<Rightarrow> Hand \<Rightarrow> EntityInfo \<Rightarrow> Inventory" where
  "store_entry inv' hand info = set_hand_entry inv' hand (Some info)"

definition insert_entry :: "Inventory \<Rightarrow> int \<Rightarrow> EntityInfo \<Rightarrow> Inventory" where
  "insert_entry inv' index info = set_pocket_entry inv' index (Some info)"

text \<open>
  Modelled from the spec: \<open>get_free_hand\<close> of the absent module \<open>inventory\<close> is none
  exactly when both hands hold an item; which free hand it prefers is not fixed by the
  specification (here: the left one).
\<close>

definition get_free_hand :: "Inventory \<Rightarrow> Hand option" where
  "get_free_hand inv' =
     (if left_hand inv' = None then Some LEFT
      else if right_hand inv' = None then Some RIGHT
      else None)"

definition all_entries :: "Inventory \<Rightarrow> EntityInfo list" where
  "all_entries inv' =
     (case left_hand inv' of None \<Rightarrow> [] | Some e \<Rightarrow> [e])
     @ (case right_hand inv' of None \<Rightarrow> [] | Some e \<Rightarrow> [e])
     @ map snd (pockets inv')"

definition swap :: "Inventory \<Rightarrow> Hand \<Rightarrow> int \<Rightarrow> Inventory" where
  "swap inv' hand index =
     (let h = get_hand_entry inv' hand;
          p = get_pocket_entry inv' index
      in set_pocket_entry (set_hand_entry inv' hand p) index h)"

subsection \<open>Features\<close>

text \<open>
  Modelled from the spec: the module \<open>features\<close> is not among the sources. A feature set
  is a record of optional capabilities, each present or absent. A claim says what a feature
  delivers or absorbs: a tool or weapon delivers PAIN and a damageable absorbs it, an
  inventorable item delivers CARGO and an inventory absorbs it, an eater absorbs FOOD.
\<close>

record Damageable =
  health :: real
  max_health :: real
  damage_variant :: DamageVariant

record ToolOrWeapon =
  hit_damage :: real
  chop_damage :: real
  smash_damage :: real
  attack_damage :: real

record Eater =
  max_capacity :: real
  hunger_value :: real

record Features =
  inventorable :: "ActorId option option"
  stackable :: "int option"
  damageable :: "Damageable option"
  tool_or_weapon :: "ToolOrWeapon option"
  inventory :: "Inventory option"
  eater :: "Eater option"
  performer :: bool

definition no_features :: Features where
  "no_features = \<lparr>inventorable = None, stackable = None, damageable = None,
     tool_or_weapon = None, inventory = None, eater = None, performer = False\<rparr>"

definition delivery_claims :: "Features \<Rightarrow> Claim list" where
  "delivery_claims f =
     (if tool_or_weapon f \<noteq> None then [PAIN] else [])
     @ (if inventorable f \<noteq> None then [CARGO] else [])"

definition delivers :: "Features \<Rightarrow> Claim list \<Rightarrow> bool" where
  "delivers f claims = list_ex (\<lambda>c. List.member (delivery_claims f) c) claims"

definition absorbs_claim :: "Features \<Rightarrow> Claim \<Rightarrow> bool" where
  "absorbs_claim f c =
     (case c of
        PAIN \<Rightarrow> damageable f \<noteq> None
      | FOOD \<Rightarrow> eater f \<noteq> None
      | CARGO \<Rightarrow> inventory f \<noteq> None)"

definition absorbs :: "Features \<Rightarrow> Claim list \<Rightarrow> bool" where
  "absorbs f claims = list_ex (absorbs_claim f) claims"

definition get_first_absorbed :: "Features \<Rightarrow> Claim list \<Rightarrow> Claim option" where
  "get_first_absorbed f claims = find (absorbs_claim f) claims"

section \<open>entities.py\<close>

text \<open>
  An entity has an id, a position (none when it is not physically present, as in an
  inventory), its class and its features. \<open>CODENAME\<close> and \<open>ESSENCE\<close> are the class
  attributes; the constructors set the features each class sets in \<open>__init__\<close>.
\<close>

datatype EntityKind = Rocks | Gold | Log | Axe | Spruce | Warrior | Pirate

record Entity =
  ent_id :: ActorId
  position :: "Point option"
  kind :: EntityKind
  features :: Features

fun CODENAME :: "EntityKind \<Rightarrow> string" where
  "CODENAME Rocks = ''rocks''"
| "CODENAME Gold = ''gold''"
| "CODENAME Log = ''log''"
| "CODENAME Axe = ''axe''"
| "CODENAME Spruce = ''spruce''"
| "CODENAME Warrior = ''warrior''"
| "CODENAME Pirate = ''pirate''"

fun ESSENCE :: "EntityKind \<Rightarrow> Essence" where
  "ESSENCE Rocks = ROCKS"
| "ESSENCE Gold = GOLD"
| "ESSENCE Log = LOGS"
| "ESSENCE Axe = TOOL"
| "ESSENCE Spruce = PLANT"
| "ESSENCE Warrior = HERO"
| "ESSENCE Pirate = HERO"

definition Rocks_init :: "ActorId \<Rightarrow> Point option \<Rightarrow> Entity" where
  "Rocks_init i pos = \<lparr>ent_id = i, position = pos, kind = Rocks,
     features = no_features\<lparr>inventorable := Some None, stackable := Some 1\<rparr>\<rparr>"

definition Gold_init :: "ActorId \<Rightarrow> Point option \<Rightarrow> Entity" where
  "Gold_init i pos = \<lparr>ent_id = i, position = pos, kind = Gold,
     features = no_features\<lparr>inventorable := Some None, stackable := Some 1\<rparr>\<rparr>"

definition Log_init :: "ActorId \<Rightarrow> Point option \<Rightarrow> Entity" where
  "Log_init i pos = \<lparr>ent_id = i, position = pos, kind = Log,
     features = no_features\<lparr>inventorable := Some None\<rparr>\<rparr>"

definition Axe_init :: "ActorId \<Rightarrow> Point option \<Rightarrow> Entity" where
  "Axe_init i pos = \<lparr>ent_id = i, position = pos, kind = Axe,
     features = no_features\<lparr>inventorable := Some None,
       tool_or_weapon := Some \<lparr>hit_damage = 10, chop_damage = 100, smash_damage = 20,
                                attack_damage = 50\<rparr>\<rparr>\<rparr>"

definition Spruce_init :: "ActorId \<Rightarrow> Point option \<Rightarrow> Entity" where
  "Spruce_init i pos = \<lparr>ent_id = i, position = pos, kind = Spruce,
     features = no_features\<lparr>damageable :=
       Some \<lparr>health = 200, max_health = 400, damage_variant = CHOP\<rparr>\<rparr>\<rparr>"

definition Warrior_init :: "ActorId \<Rightarrow> Point option \<Rightarrow> Entity" where
  "Warrior_init i pos = \<lparr>ent_id = i, position = pos, kind = Warrior,
     features = no_features\<lparr>performer := True\<rparr>\<rparr>"

definition Pirate_init :: "ActorId \<Rightarrow> Point option \<Rightarrow> Entity" where
  "Pirate_init i pos = \<lparr>ent_id = i, position = pos, kind = Pirate,
     features = no_features\<lparr>inventory := Some empty_inventory,
       eater := Some \<lparr>max_capacity = 100.0, hunger_value = 50.0\<rparr>\<rparr>\<rparr>"

text \<open>
  \<open>Spruce.generate_drops\<close>: three logs at the position of the spruce, each built with the
  id \<open>-1\<close>. The assertion fails when the spruce has no position.
\<close>

definition generate_drops :: "Entity \<Rightarrow> py_error + Entity list" where
  "generate_drops self =
     (if position self = None then Inl AssertionError
      else Inr (map (\<lambda>i. Log_init (- 1) (position self)) [0 ..< 3]))"

text \<open>
  Modelled from the spec: \<open>get_name\<close> and \<open>as_info\<close> belong to the base class
  \<open>essentials.Entity\<close>, which is not among the sources. As the specification and the
  tests have it, the name of an entity is its codename, and its inventory entry carries
  its id, essence, codename and the size of its stack (1 when it is not stackable).
\<close>

definition get_name :: "Entity \<Rightarrow> string" where
  "get_name self = CODENAME (kind self)"

definition as_info :: "Entity \<Rightarrow> EntityInfo" where
  "as_info self =
     \<lparr>entry_id = ent_id self, entry_essence = ESSENCE (kind self),
      entry_quantity = (case stackable (features self) of None \<Rightarrow> 1 | Some n \<Rightarrow> n),
      entry_codename = CODENAME (kind self)\<rparr>"


section \<open>Actions and animations.py\<close>

text \<open>
  The twelve action classes, with the attributes the animation constructors read. An
  actor of the scene is built by the tasks from an id, a name and a position. The payload
  of a \<open>StatUpdateAction\<close> is kept abstract: no source reads inside it.
\<close>

record Actor =
  actor_id :: ActorId
  actor_name :: string
  actor_position :: "Point option"

typedecl Stats

datatype Action =
    ConfigurationAction ActorId ElevationFunction
  | CraftStartAction ActorId
  | CraftEndAction ActorId
  | CreateActorsAction "Actor list"
  | DeleteActorsAction "ActorId list"
  | MovementAction ActorId real real real
  | LocalizeAction ActorId "Point option"
  | StatUpdateAction ActorId Stats
  | PickStartAction ActorId ActorId
  | PickEndAction ActorId
  | UpdateInventoryAction ActorId Inventory
  | DamageAction ActorId ActorId DamageVariant Hand

text \<open>
  \<open>type(action)\<close>: the class of an action, the key of the constructor table.
\<close>

datatype ActionType =
    ConfigurationAction_type
  | CraftStartAction_type
  | CraftEndAction_type
  | CreateActorsAction_type
  | DeleteActorsAction_type
  | MovementAction_type
  | LocalizeAction_type
  | StatUpdateAction_type
  | PickStartAction_type
  | PickEndAction_type
  | UpdateInventoryAction_type
  | DamageAction_type

fun type_of_action :: "Action \<Rightarrow> ActionType" where
  "type_of_action (ConfigurationAction _ _) = ConfigurationAction_type"
| "type_of_action (CraftStartAction _) = CraftStartAction_type"
| "type_of_action (CraftEndAction _) = CraftEndAction_type"
| "type_of_action (CreateActorsAction _) = CreateActorsAction_type"
| "type_of_action (DeleteActorsAction _) = DeleteActorsAction_type"
| "type_of_action (MovementAction _ _ _ _) = MovementAction_type"
| "type_of_action (LocalizeAction _ _) = LocalizeAction_type"
| "type_of_action (StatUpdateAction _ _) = StatUpdateAction_type"
| "type_of_action (PickStartAction _ _) = PickStartAction_type"
| "type_of_action (PickEndAction _) = PickEndAction_type"
| "type_of_action (UpdateInventoryAction _ _) = UpdateInventoryAction_type"
| "type_of_action (DamageAction _ _ _ _) = DamageAction_type"

text \<open>
  The base class \<open>Animation\<close>: \<open>__init__(timeout)\<close> clears the expiry flag, reads the
  monotonic clock (the argument \<open>now\<close>) and stores the timeout.
\<close>

record AnimationBase =
  expired_flag :: bool
  start_time :: real
  timeout :: "real option"

definition Animation_init :: "real \<Rightarrow> real option \<Rightarrow> AnimationBase" where
  "Animation_init now timeout' = \<lparr>expired_flag = False, start_time = now, timeout = timeout'\<rparr>"

text \<open>
  The twelve animation classes: the base part and the attributes their constructors copy
  from the action (\<open>MovementAnimation\<close> also starts its tick count at 0).
\<close>

datatype Animation =
    ConfigurationAnimation AnimationBase ActorId ElevationFunction
  | CraftStartAnimation AnimationBase ActorId
  | CraftEndAnimation AnimationBase ActorId
  | CreateActorsAnimation AnimationBase "Actor list"
  | DeleteActorsAnimation AnimationBase "ActorId list"
  | MovementAnimation AnimationBase ActorId real real nat
  | LocalizeAnimation AnimationBase ActorId "Point option"
  | StatUpdateAnimation AnimationBase ActorId Stats
  | PickStartAnimation AnimationBase ActorId ActorId
  | PickEndAnimation AnimationBase ActorId
  | UpdateInventoryAnimation AnimationBase ActorId Inventory
  | DamageAnimation AnimationBase ActorId ActorId DamageVariant Hand

text \<open>
  The constructors. Each reads the attributes of its own action class; given an action of
  another class, the attribute lookup raises \<open>AttributeError\<close>.
\<close>

fun ConfigurationAnimation_init :: "real \<Rightarrow> Action \<Rightarrow> py_error + Animation" where
  "ConfigurationAnimation_init now (ConfigurationAction hero_actor_id elevation_function) =
     Inr (ConfigurationAnimation (Animation_init now None) hero_actor_id elevation_function)"
| "ConfigurationAnimation_init now _ = Inl AttributeError"

fun CraftStartAnimation_init :: "real \<Rightarrow> Action \<Rightarrow> py_error + Animation" where
  "CraftStartAnimation_init now (CraftStartAction crafter_id) =
     Inr (CraftStartAnimation (Animation_init now None) crafter_id)"
| "CraftStartAnimation_init now _ = Inl AttributeError"

fun CraftEndAnimation_init :: "real \<Rightarrow> Action \<Rightarrow> py_error + Animation" where
  "CraftEndAnimation_init now (CraftEndAction crafter_id) =
     Inr (CraftEndAnimation (Animation_init now None) crafter_id)"
| "CraftEndAnimation_init now _ = Inl AttributeError"

fun CreateActorsAnimation_init :: "real \<Rightarrow> Action \<Rightarrow> py_error + Animation" where
  "CreateActorsAnimation_init now (CreateActorsAction actors) =
     Inr (CreateActorsAnimation (Animation_init now None) actors)"
| "CreateActorsAnimation_init now _ = Inl AttributeError"

fun DeleteActorsAnimation_init :: "real \<Rightarrow> Action \<Rightarrow> py_error + Animation" where
  "DeleteActorsAnimation_init now (DeleteActorsAction actor_ids) =
     Inr (DeleteActorsAnimation (Animation_init now None) actor_ids)"
| "DeleteActorsAnimation_init now _ = Inl AttributeError"

fun MovementAnimation_init :: "real \<Rightarrow> Action \<Rightarrow> py_error + Animation" where
  "MovementAnimation_init now (MovementAction actor speed bearing duration) =
     Inr (MovementAnimation (Animation_init now (Some duration)) actor speed bearing 0)"
| "MovementAnimation_init now _ = Inl AttributeError"

fun LocalizeAnimation_init :: "real \<Rightarrow> Action \<Rightarrow> py_error + Animation" where
  "LocalizeAnimation_init now (LocalizeAction actor pos) =
     Inr (LocalizeAnimation (Animation_init now None) actor pos)"
| "LocalizeAnimation_init now _ = Inl AttributeError"

fun StatUpdateAnimation_init :: "real \<Rightarrow> Action \<Rightarrow> py_error + Animation" where
  "StatUpdateAnimation_init now (StatUpdateAction actor stats) =
     Inr (StatUpdateAnimation (Animation_init now None) actor stats)"
| "StatUpdateAnimation_init now _ = Inl AttributeError"

fun PickStartAnimation_init :: "real \<Rightarrow> Action \<Rightarrow> py_error + Animation" where
  "PickStartAnimation_init now (PickStartAction who what) =
     Inr (PickStartAnimation (Animation_init now None) who what)"
| "PickStartAnimation_init now _ = Inl AttributeError"

fun PickEndAnimation_init :: "real \<Rightarrow> Action \<Rightarrow> py_error + Animation" where
  "PickEndAnimation_init now (PickEndAction who) =
     Inr (PickEndAnimation (Animation_init now None) who)"
| "PickEndAnimation_init now _ = Inl AttributeError"

fun UpdateInventoryAnimation_init :: "real \<Rightarrow> Action \<Rightarrow> py_error + Animation" where
  "UpdateInventoryAnimation_init now (UpdateInventoryAction owner_id inventory') =
     Inr (UpdateInventoryAnimation (Animation_init now None) owner_id inventory')"
| "UpdateInventoryAnimation_init now _ = Inl AttributeError"

fun DamageAnimation_init :: "real \<Rightarrow> Action \<Rightarrow> py_error + Animation" where
  "DamageAnimation_init now (DamageAction dealer_id receiver_id variant hand) =
     Inr (DamageAnimation (Animation_init now None) dealer_id receiver_id variant hand)"
| "DamageAnimation_init now _ = Inl AttributeError"

text \<open>
  The table \<open>_ANIMITION_CONSTRUCTORS\<close>, a dictionary from action classes to animation
  constructors, in the order it is written.
\<close>

definition ANIMITION_CONSTRUCTORS ::
    "(ActionType \<times> (real \<Rightarrow> Action \<Rightarrow> py_error + Animation)) list" where
  "ANIMITION_CONSTRUCTORS =
     [(ConfigurationAction_type, ConfigurationAnimation_init),
      (CraftStartAction_type, CraftStartAnimation_init),
      (CraftEndAction_type, CraftEndAnimation_init),
      (CreateActorsAction_type, CreateActorsAnimation_init),
      (DeleteActorsAction_type, DeleteActorsAnimation_init),
      (MovementAction_type, MovementAnimation_init),
      (LocalizeAction_type, LocalizeAnimation_init),
      (StatUpdateAction_type, StatUpdateAnimation_init),
      (PickStartAction_type, PickStartAnimation_init),
      (PickEndAction_type, PickEndAnimation_init),
      (UpdateInventoryAction_type, UpdateInventoryAnimation_init),
      (DamageAction_type, DamageAnimation_init)]"

text \<open>
  \<open>animation_from_action\<close>: the subscript raises \<open>KeyError\<close> for a class that is not a
  key of the table; the constructor found is called on the action.
\<close>

definition animation_from_action :: "real \<Rightarrow> Action \<Rightarrow> py_error + Animation" where
  "animation_from_action now action =
     (case map_of ANIMITION_CONSTRUCTORS (type_of_action action) of
        None \<Rightarrow> Inl KeyError
      | Some constructor \<Rightarrow> constructor now action)"


section \<open>State\<close>

text \<open>
  Modelled from the spec: the module \<open>state\<close> is not among the sources. The state is the
  registry of all entities, in insertion order, plus the elevation function of the world.
  The registry is a dictionary keyed by id, so the ids of the registered entities are
  pairwise distinct; \<open>get_entity\<close> is the lookup by id.
\<close>

record State =
  entities :: "Entity list"
  elevation_function :: ElevationFunction

definition get_entity :: "State \<Rightarrow> ActorId \<Rightarrow> Entity option" where
  "get_entity st i = find (\<lambda>e. ent_id e = i) (entities st)"

definition update_entity :: "State \<Rightarrow> ActorId \<Rightarrow> (Entity \<Rightarrow> Entity) \<Rightarrow> State" where
  "update_entity st i f = st\<lparr>entities := map (\<lambda>e. if ent_id e = i then f e else e) (entities st)\<rparr>"

definition delete_entity :: "State \<Rightarrow> ActorId \<Rightarrow> State" where
  "delete_entity st i = st\<lparr>entities := filter (\<lambda>e. ent_id e \<noteq> i) (entities st)\<rparr>"

text \<open>
  Modelled from the spec: \<open>add_entity\<close> of the absent module \<open>state\<close>. An entity created
  by a drop or craft effect gets a fresh id. The drops of the sources are built with the id
  \<open>-1\<close> and their ids are read back after \<open>add_entity\<close>, so \<open>add_entity\<close> gives an
  entity with a negative id a fresh one (here: one more than the
  greatest id in use, and at least 0) and registers it; an entity that brings its own id
  is stored under it, replacing an entity already stored there. It returns the state and
  the entity as registered.
\<close>

definition fresh_id :: "State \<Rightarrow> ActorId" where
  "fresh_id st = fold max (map ent_id (entities st)) (- 1) + 1"

definition add_entity :: "State \<Rightarrow> Entity \<Rightarrow> State \<times> Entity" where
  "add_entity st entity =
     (let entity' = (if ent_id entity < 0 then entity\<lparr>ent_id := fresh_id st\<rparr> else entity)
      in if get_entity st (ent_id entity') = None
         then (st\<lparr>entities := entities st @ [entity']\<rparr>, entity')
         else (update_entity st (ent_id entity') (\<lambda>e. entity'), entity'))"

text \<open>
  Modelled from the spec: \<open>calculate_distance\<close> of the absent module \<open>state\<close> is none if
  either entity lacks a position, otherwise the great-circle distance of the two positions on the radius of the
  world.
\<close>

definition calculate_distance :: "State \<Rightarrow> Entity \<Rightarrow> Entity \<Rightarrow> py_error + real option" where
  "calculate_distance st a b =
     (case (position a, position b) of
        (Some p, Some q) \<Rightarrow>
          (case Point_great_circle_distance_to p q (get_radius (elevation_function st)) of
             Inl e \<Rightarrow> Inl e
           | Inr d \<Rightarrow> Inr (Some d))
      | _ \<Rightarrow> Inr None)"

text \<open>
  Modelled from the spec: \<open>find_closest_*_within(origin_id, claims, max_distance)\<close> of the
  absent module \<open>state\<close> scans
  the live entities in registry order, keeps those that match the claims and lie within
  \<open>max_distance\<close> of the origin, and returns the id of the nearest, the first encountered
  among equally near ones, or none.
\<close>

fun closest_within ::
    "State \<Rightarrow> Entity \<Rightarrow> (Entity \<Rightarrow> bool) \<Rightarrow> real \<Rightarrow> Entity list \<Rightarrow> (ActorId \<times> real) option
       \<Rightarrow> py_error + ActorId option" where
  "closest_within st origin matches max_distance [] best = Inr (map_option fst best)"
| "closest_within st origin matches max_distance (e # es) best =
     (if matches e then
        (case calculate_distance st origin e of
           Inl err \<Rightarrow> Inl err
         | Inr None \<Rightarrow> closest_within st origin matches max_distance es best
         | Inr (Some d) \<Rightarrow>
             if d \<le> max_distance \<and> (case best of None \<Rightarrow> True | Some (_, bd) \<Rightarrow> d < bd)
             then closest_within st origin matches max_distance es (Some (ent_id e, d))
             else closest_within st origin matches max_distance es best)
      else closest_within st origin matches max_distance es best)"

definition find_closest_delivering_within ::
    "State \<Rightarrow> ActorId \<Rightarrow> Claim list \<Rightarrow> real \<Rightarrow> py_error + ActorId option" where
  "find_closest_delivering_within st origin_id claims max_distance =
     (case get_entity st origin_id of
        None \<Rightarrow> Inr None
      | Some origin \<Rightarrow>
          closest_within st origin (\<lambda>e. delivers (features e) claims) max_distance
            (entities st) None)"

definition find_closest_absorbing_within ::
    "State \<Rightarrow> ActorId \<Rightarrow> Claim list \<Rightarrow> real \<Rightarrow> py_error + ActorId option" where
  "find_closest_absorbing_within st origin_id claims max_distance =
     (case get_entity st origin_id of
        None \<Rightarrow> Inr None
      | Some origin \<Rightarrow>
          closest_within st origin (\<lambda>e. absorbs (features e) claims) max_distance
            (entities st) None)"

text \<open>
  An assembly is a crafting recipe instance: a target codename plus grouped source item
  requirements, as the tests build it.
\<close>

record Item =
  item_actor_id :: ActorId
  item_essence :: Essence
  item_quantity :: int

record Assembly =
  recipe_codename :: string
  sources :: "Item list list"

text \<open>
  Modelled from the spec: \<open>validate_assembly\<close> of the absent module \<open>state\<close> checks that
  for every item of every source group the inventory holds an entry of that actor with the
  same essence and at least the required quantity. The recipe table, which says what
  groups a codename requires, is not among the sources and is not modelled.
\<close>

definition holds_item :: "Inventory \<Rightarrow> Item \<Rightarrow> bool" where
  "holds_item inv' item =
     list_ex (\<lambda>entry. entry_id entry = item_actor_id item
                     \<and> entry_essence entry = item_essence item
                     \<and> item_quantity item \<le> entry_quantity entry)
       (all_entries inv')"

definition validate_assembly :: "State \<Rightarrow> Assembly \<Rightarrow> Inventory \<Rightarrow> bool" where
  "validate_assembly st assembly inv' =
     list_all (\<lambda>group. list_all (holds_item inv') group) (sources assembly)"

text \<open>
  Modelled from the spec: \<open>merge_entities(inventory, hand, pocket_index)\<close> of the absent
  module \<open>state\<close> combines the
  stack in the hand (the source, of quantity S) with the stack in the pocket (the target,
  of quantity T). Nothing happens when a slot is empty or the essences differ. If
  \<open>S + T\<close> fits the capacity of a stack, the target absorbs the full quantity, the source
  slot becomes empty and the source's backing entity is removed from the state; otherwise
  the target is filled to the capacity and the remainder stays in the source. The slots
  and the stack sizes of the backing entities are updated together. The capacity of a
  stack is a constant of a module that is not among the sources (20 in the tests); it is
  the first argument here.
\<close>

definition set_stack_size :: "State \<Rightarrow> ActorId \<Rightarrow> int \<Rightarrow> State" where
  "set_stack_size st i n =
     update_entity st i
       (\<lambda>e. if stackable (features e) = None then e
            else e\<lparr>features := (features e)\<lparr>stackable := Some n\<rparr>\<rparr>)"

definition merge_entities ::
    "int \<Rightarrow> State \<Rightarrow> Inventory \<Rightarrow> Hand \<Rightarrow> int \<Rightarrow> State \<times> Inventory" where
  "merge_entities capacity st inv' hand pocket_index =
     (case (get_hand_entry inv' hand, get_pocket_entry inv' pocket_index) of
        (Some source, Some target) \<Rightarrow>
          if entry_essence source \<noteq> entry_essence target then (st, inv')
          else
            let total = entry_quantity source + entry_quantity target
            in if total \<le> capacity then
                 (delete_entity (set_stack_size st (entry_id target) total) (entry_id source),
                  set_pocket_entry (set_hand_entry inv' hand None) pocket_index
                    (Some (target\<lparr>entry_quantity := total\<rparr>)))
               else
                 (set_stack_size (set_stack_size st (entry_id target) capacity)
                    (entry_id source) (total - capacity),
                  set_pocket_entry
                    (set_hand_entry inv' hand
                       (Some (source\<lparr>entry_quantity := total - capacity\<rparr>)))
                    pocket_index (Some (target\<lparr>entry_quantity := capacity\<rparr>)))
      | _ \<Rightarrow> (st, inv'))"


section \<open>tasks.py\<close>

text \<open>
  The jobs and the event the tasks construct: the constructor calls with their arguments
  (the modules \<open>jobs\<close> and \<open>events\<close> are not among the sources, and no task looks
  inside a job).
\<close>

datatype Event = FinishedEvent ActorId

datatype Job =
    MovementJob ActorId real real real "Event list"
  | WaitJob real "Event list"
  | DamageJob ActorId ActorId ActorId Hand "Event list"

text \<open>
  A task is an object of one of seven classes; the constructor arguments are its
  attributes, in the order of \<open>__init__\<close>, followed by the attribute \<open>job\<close> where the
  class has one. A method that assigns to an attribute returns the task as changed, and
  every \<open>start\<close> returns the state as it leaves it.
\<close>

datatype Task =
    MovementTask ActorId real real Job
  | WalkTask ActorId real real real
  | PickItemTask ActorId "ActorId option" Hand "Job option"
  | UseItemTask ActorId ActorId "ActorId option" Hand "Job option"
  | InventoryUpdateTask ActorId Hand int UpdateVariant
  | DieAndDropTask ActorId "Entity list" Job
  | CraftTask ActorId Assembly "Job option"

definition MovementTask_TIMEOUT :: real where "MovementTask_TIMEOUT = 20.0"
definition PickItemTask_PICK_DURATION :: real where "PickItemTask_PICK_DURATION = 1.0"
definition PickItemTask_MAX_DISTANCE :: real where "PickItemTask_MAX_DISTANCE = 1.0"
definition UseItemTask_MAX_DISTANCE :: real where "UseItemTask_MAX_DISTANCE = 1.0"
definition InventoryUpdateTask_SWAP_DURATION :: real where "InventoryUpdateTask_SWAP_DURATION = 0.01"
definition DieAndDropTask_DIE_DURATION :: real where "DieAndDropTask_DIE_DURATION = 0.01"
definition CraftTask_CRAFT_DURATION :: real where "CraftTask_CRAFT_DURATION = 1.0"

subsection \<open>The constructors\<close>

definition MovementTask_init :: "ActorId \<Rightarrow> real \<Rightarrow> real \<Rightarrow> Task" where
  "MovementTask_init entity_id speed bearing =
     MovementTask entity_id speed bearing
       (MovementJob entity_id speed bearing MovementTask_TIMEOUT [])"

definition WalkTask_init :: "ActorId \<Rightarrow> real \<Rightarrow> real \<Rightarrow> real \<Rightarrow> Task" where
  "WalkTask_init entity_id speed bearing duration = WalkTask entity_id speed bearing duration"

definition PickItemTask_init :: "ActorId \<Rightarrow> ActorId option \<Rightarrow> Hand \<Rightarrow> Task" where
  "PickItemTask_init who_id what_id hand = PickItemTask who_id what_id hand None"

definition UseItemTask_init :: "ActorId \<Rightarrow> ActorId \<Rightarrow> ActorId option \<Rightarrow> Hand \<Rightarrow> Task" where
  "UseItemTask_init performer_id item_id receiver_id hand =
     UseItemTask performer_id item_id receiver_id hand None"

definition InventoryUpdateTask_init :: "ActorId \<Rightarrow> Hand \<Rightarrow> int \<Rightarrow> UpdateVariant \<Rightarrow> Task" where
  "InventoryUpdateTask_init performer_id hand inventory_index update_variant =
     InventoryUpdateTask performer_id hand inventory_index update_variant"

definition DieAndDropTask_init :: "ActorId \<Rightarrow> Entity list \<Rightarrow> Task" where
  "DieAndDropTask_init dier_id drops =
     DieAndDropTask dier_id drops (WaitJob DieAndDropTask_DIE_DURATION [FinishedEvent dier_id])"

definition CraftTask_init :: "ActorId \<Rightarrow> Assembly \<Rightarrow> Task" where
  "CraftTask_init crafter_id assembly = CraftTask crafter_id assembly None"

subsection \<open>start\<close>

text \<open>
  \<open>PickItemTask.start\<close>. The target is searched only when none was given. After the
  distance check \<open>what_id\<close> cannot be none, so the last \<open>else\<close> of the source is dead.
\<close>

definition PickItemTask_start ::
    "State \<Rightarrow> ActorId \<Rightarrow> ActorId option \<Rightarrow> Hand \<Rightarrow> Job option
       \<Rightarrow> py_error + (Action list \<times> Task \<times> State)" where
  "PickItemTask_start st who_id what_id hand job =
     (case (case what_id of
              None \<Rightarrow> find_closest_delivering_within st who_id [CARGO] PickItemTask_MAX_DISTANCE
            | Some w \<Rightarrow> Inr (Some w)) of
        Inl err \<Rightarrow> Inl err
      | Inr what_id' \<Rightarrow>
          (case what_id' of
             None \<Rightarrow> Inr ([], PickItemTask who_id what_id' hand job, st)
           | Some what \<Rightarrow>
               (case (get_entity st who_id, get_entity st what) of
                  (Some entity, Some item) \<Rightarrow>
                    (case calculate_distance st entity item of
                       Inl err \<Rightarrow> Inl err
                     | Inr None \<Rightarrow> Inr ([], PickItemTask who_id what_id' hand job, st)
                     | Inr (Some distance) \<Rightarrow>
                         if PickItemTask_MAX_DISTANCE < distance
                         then Inr ([], PickItemTask who_id what_id' hand job, st)
                         else Inr ([PickStartAction who_id what],
                                   PickItemTask who_id what_id' hand
                                     (Some (WaitJob PickItemTask_PICK_DURATION
                                              [FinishedEvent who_id])),
                                   st))
                | _ \<Rightarrow> Inr ([], PickItemTask who_id what_id' hand job, st))))"

text \<open>
  \<open>UseItemTask.start\<close>. The given receiver is kept when it is truthy: an id that is
  neither none nor 0; otherwise the nearest absorbing entity is searched. Every path
  returns the empty list; the PAIN path stores a \<open>DamageJob\<close> first.
\<close>

definition UseItemTask_start ::
    "State \<Rightarrow> ActorId \<Rightarrow> ActorId \<Rightarrow> ActorId option \<Rightarrow> Hand \<Rightarrow> Job option
       \<Rightarrow> py_error + (Action list \<times> Task \<times> State)" where
  "UseItemTask_start st performer_id item_id receiver_id hand job =
     (case (get_entity st performer_id, get_entity st item_id) of
        (Some performer', Some item) \<Rightarrow>
          (let claims = delivery_claims (features item)
           in case (if receiver_id \<noteq> None \<and> receiver_id \<noteq> Some 0 then Inr receiver_id
                    else find_closest_absorbing_within st performer_id claims
                           UseItemTask_MAX_DISTANCE) of
                Inl err \<Rightarrow> Inl err
              | Inr receiver_id' \<Rightarrow>
                  (case receiver_id' of
                     None \<Rightarrow> Inr ([], UseItemTask performer_id item_id receiver_id' hand job, st)
                   | Some rid \<Rightarrow>
                       (case get_entity st rid of
                          None \<Rightarrow>
                            Inr ([], UseItemTask performer_id item_id receiver_id' hand job, st)
                        | Some receiver \<Rightarrow>
                            (case calculate_distance st performer' receiver of
                               Inl err \<Rightarrow> Inl err
                             | Inr None \<Rightarrow>
                                 Inr ([], UseItemTask performer_id item_id receiver_id' hand job,
                                      st)
                             | Inr (Some distance) \<Rightarrow>
                                 if UseItemTask_MAX_DISTANCE < distance
                                 then Inr ([], UseItemTask performer_id item_id receiver_id' hand
                                                 job, st)
                                 else
                                   (case get_first_absorbed (features receiver) claims of
                                      None \<Rightarrow>
                                        Inr ([], UseItemTask performer_id item_id receiver_id'
                                                   hand job, st)
                                    | Some PAIN \<Rightarrow>
                                        Inr ([], UseItemTask performer_id item_id receiver_id'
                                                   hand
                                                   (Some (DamageJob performer_id rid item_id hand
                                                            [FinishedEvent performer_id])),
                                             st)
                                    | Some FOOD \<Rightarrow>
                                        Inr ([], UseItemTask performer_id item_id receiver_id'
                                                   hand job, st)
                                    | Some CARGO \<Rightarrow>
                                        Inr ([], UseItemTask performer_id item_id receiver_id'
                                                   hand job, st))))))
      | _ \<Rightarrow> Inr ([], UseItemTask performer_id item_id receiver_id hand job, st))"

text \<open>
  \<open>DieAndDropTask.start\<close>. The loop registers every drop; the ids of the actors are read
  from the drops after that, as \<open>add_entity\<close> left them. Nothing else touches the state.
\<close>

fun add_entities :: "State \<Rightarrow> Entity list \<Rightarrow> State \<times> Entity list" where
  "add_entities st [] = (st, [])"
| "add_entities st (d # ds) =
     (case add_entity st d of
        (st', d') \<Rightarrow>
          (case add_entities st' ds of (st'', ds') \<Rightarrow> (st'', d' # ds')))"

definition DieAndDropTask_start ::
    "State \<Rightarrow> ActorId \<Rightarrow> Entity list \<Rightarrow> Job \<Rightarrow> py_error + (Action list \<times> Task \<times> State)" where
  "DieAndDropTask_start st dier_id drops job =
     (case get_entity st dier_id of
        None \<Rightarrow> Inr ([], DieAndDropTask dier_id drops job, st)
      | Some dier \<Rightarrow>
          (case add_entities st drops of
             (st', drops') \<Rightarrow>
               (let actors = map (\<lambda>d. \<lparr>actor_id = ent_id d, actor_name = get_name d,
                                       actor_position = position d\<rparr>) drops'
                in Inr ([CreateActorsAction actors, DeleteActorsAction [dier_id]],
                        DieAndDropTask dier_id drops' job, st'))))"

text \<open>
  \<open>CraftTask.start\<close>: the crafter, its inventory, a free hand, and only then the recipe.
\<close>

definition CraftTask_start ::
    "State \<Rightarrow> ActorId \<Rightarrow> Assembly \<Rightarrow> Job option
       \<Rightarrow> py_error + (Action list \<times> Task \<times> State)" where
  "CraftTask_start st crafter_id assembly job =
     (case get_entity st crafter_id of
        None \<Rightarrow> Inr ([], CraftTask crafter_id assembly job, st)
      | Some crafter \<Rightarrow>
          (case inventory (features crafter) of
             None \<Rightarrow> Inr ([], CraftTask crafter_id assembly job, st)
           | Some inv' \<Rightarrow>
               if get_free_hand inv' = None
               then Inr ([], CraftTask crafter_id assembly job, st)
               else if \<not> validate_assembly st assembly inv'
               then Inr ([], CraftTask crafter_id assembly job, st)
               else Inr ([CraftStartAction crafter_id],
                         CraftTask crafter_id assembly
                           (Some (WaitJob CraftTask_CRAFT_DURATION [FinishedEvent crafter_id])),
                         st)))"

text \<open>The method \<open>start\<close> of a task, by its class.\<close>

fun start :: "State \<Rightarrow> Task \<Rightarrow> py_error + (Action list \<times> Task \<times> State)" where
  "start st (MovementTask entity_id speed bearing job) =
     Inr ([MovementAction entity_id speed bearing MovementTask_TIMEOUT],
          MovementTask entity_id speed bearing job, st)"
| "start st (WalkTask entity_id speed bearing duration) =
     Inr ([MovementAction entity_id speed bearing duration],
          WalkTask entity_id speed bearing duration, st)"
| "start st (PickItemTask who_id what_id hand job) =
     PickItemTask_start st who_id what_id hand job"
| "start st (UseItemTask performer_id item_id receiver_id hand job) =
     UseItemTask_start st performer_id item_id receiver_id hand job"
| "start st (InventoryUpdateTask performer_id hand inventory_index update_variant) =
     Inr ([], InventoryUpdateTask performer_id hand inventory_index update_variant, st)"
| "start st (DieAndDropTask dier_id drops job) = DieAndDropTask_start st dier_id drops job"
| "start st (CraftTask crafter_id assembly job) = CraftTask_start st crafter_id assembly job"

subsection \<open>get_job\<close>

fun get_job :: "Task \<Rightarrow> Job option" where
  "get_job (MovementTask entity_id speed bearing job) = Some job"
| "get_job (WalkTask entity_id speed bearing duration) =
     Some (MovementJob entity_id speed bearing duration [FinishedEvent entity_id])"
| "get_job (PickItemTask who_id what_id hand job) = job"
| "get_job (UseItemTask performer_id item_id receiver_id hand job) = job"
| "get_job (InventoryUpdateTask performer_id hand inventory_index update_variant) =
     Some (WaitJob InventoryUpdateTask_SWAP_DURATION [FinishedEvent performer_id])"
| "get_job (DieAndDropTask dier_id drops job) = Some job"
| "get_job (CraftTask crafter_id assembly job) = job"

subsection \<open>finish\<close>

text \<open>
  \<open>PickItemTask.finish\<close>. On success the item is stored in the hand of the picker, marked
  as stored by it, and loses its position; the entity objects are those of the registry.
\<close>

definition PickItemTask_finish ::
    "State \<Rightarrow> ActorId \<Rightarrow> ActorId option \<Rightarrow> Hand \<Rightarrow> py_error + (Action list \<times> State)" where
  "PickItemTask_finish st who_id what_id hand =
     (case what_id of
        None \<Rightarrow> Inr ([], st)
      | Some what \<Rightarrow>
          (case (get_entity st who_id, get_entity st what) of
             (Some entity, Some item) \<Rightarrow>
               (case (inventory (features entity), inventorable (features item)) of
                  (Some inv', Some stored_by) \<Rightarrow>
                    (case calculate_distance st entity item of
                       Inl err \<Rightarrow> Inl err
                     | Inr None \<Rightarrow> Inr ([], st)
                     | Inr (Some distance) \<Rightarrow>
                         if PickItemTask_MAX_DISTANCE < distance then Inr ([], st)
                         else
                           (let inv'' = store_entry inv' hand (as_info item);
                                st1 = update_entity st who_id
                                        (\<lambda>e. e\<lparr>features := (features e)\<lparr>inventory := Some inv''\<rparr>\<rparr>);
                                st2 = update_entity st1 what
                                        (\<lambda>e. e\<lparr>position := None,
                                               features := (features e)
                                                 \<lparr>inventorable := Some (Some (ent_id entity))\<rparr>\<rparr>)
                            in Inr ([PickEndAction who_id, UpdateInventoryAction who_id inv''],
                                    st2)))
                | _ \<Rightarrow> Inr ([], st))
           | _ \<Rightarrow> Inr ([], st)))"

text \<open>
  \<open>InventoryUpdateTask.finish\<close>. The inventory handed to \<open>swap\<close> and \<open>merge_entities\<close>
  is the performer's own object, so the performer of the resulting state carries the
  updated inventory. The first argument is the stack capacity \<open>merge_entities\<close> needs.
\<close>

definition InventoryUpdateTask_finish ::
    "int \<Rightarrow> State \<Rightarrow> ActorId \<Rightarrow> Hand \<Rightarrow> int \<Rightarrow> UpdateVariant \<Rightarrow> Action list \<times> State" where
  "InventoryUpdateTask_finish capacity st performer_id hand inventory_index update_variant =
     (case get_entity st performer_id of
        None \<Rightarrow> ([], st)
      | Some performer' \<Rightarrow>
          (case inventory (features performer') of
             None \<Rightarrow> ([], st)
           | Some inv' \<Rightarrow>
               (case (case update_variant of
                        SWAP \<Rightarrow> (st, swap inv' hand inventory_index)
                      | MERGE \<Rightarrow> merge_entities capacity st inv' hand inventory_index) of
                  (st', inv'') \<Rightarrow>
                    ([UpdateInventoryAction performer_id inv''],
                     update_entity st' performer_id
                       (\<lambda>e. e\<lparr>features := (features e)\<lparr>inventory := Some inv''\<rparr>\<rparr>)))))"

text \<open>\<open>UseItemTask.finish\<close> and \<open>DieAndDropTask.finish\<close> return the empty list.\<close>

definition UseItemTask_finish :: "State \<Rightarrow> Action list \<times> State" where
  "UseItemTask_finish st = ([], st)"

definition DieAndDropTask_finish :: "State \<Rightarrow> Action list \<times> State" where
  "DieAndDropTask_finish st = ([], st)"


section \<open>generator.py and the worlds of the examples\<close>

text \<open>
  \<open>State(elevation_function, entities)\<close> registers the given entities;
  \<open>WorldGenerator.generate_basic\<close> builds the empty world of a given radius.
\<close>

definition State_init :: "ElevationFunction \<Rightarrow> Entity list \<Rightarrow> State" where
  "State_init ef entity_list = \<lparr>entities = entity_list, elevation_function = ef\<rparr>"

definition generate_basic :: "real \<Rightarrow> State" where
  "generate_basic r = State_init \<lparr>radius = r, terrain = []\<rparr> []"

text \<open>
  The worlds the examples run in, of radius 1000 as in the tests. \<open>here\<close> is a point on
  the equator.
\<close>

definition here :: Point where
  "here = \<lparr>theta = pi / 2, phi = 0\<rparr>"

definition test_elevation :: ElevationFunction where
  "test_elevation = \<lparr>radius = 1000, terrain = []\<rparr>"

text \<open>A pirate holding an axe in the left hand, next to a spruce.\<close>

definition armed_pirate :: Entity where
  "armed_pirate =
     (Pirate_init 1 (Some here))\<lparr>features :=
        (features (Pirate_init 1 (Some here)))\<lparr>inventory :=
           Some (store_entry empty_inventory LEFT (as_info (Axe_init 2 None)))\<rparr>\<rparr>"

definition chopping_world :: State where
  "chopping_world =
     State_init test_elevation [armed_pirate, Axe_init 2 None, Spruce_init 3 (Some here)]"

text \<open>A warrior, which has no inventory, next to rocks.\<close>

definition warrior_world :: State where
  "warrior_world =
     State_init test_elevation [Warrior_init 2 (Some here), Rocks_init 4 (Some here)]"

text \<open>A pirate and rocks that have no position.\<close>

definition stored_rocks_world :: State where
  "stored_rocks_world =
     State_init test_elevation [Pirate_init 1 (Some here), Rocks_init 4 None]"

text \<open>
  A pirate with two rocks in the left hand and a log in the right hand, and the assembly
  of an axe from exactly these.
\<close>

definition laden_inventory :: Inventory where
  "laden_inventory =
     store_entry
       (store_entry empty_inventory LEFT
          \<lparr>entry_id = 4, entry_essence = ROCKS, entry_quantity = 2, entry_codename = ''rocks''\<rparr>)
       RIGHT
       \<lparr>entry_id = 5, entry_essence = LOGS, entry_quantity = 1, entry_codename = ''log''\<rparr>"

definition laden_pirate :: Entity where
  "laden_pirate =
     (Pirate_init 1 (Some here))\<lparr>features :=
        (features (Pirate_init 1 (Some here)))\<lparr>inventory := Some laden_inventory\<rparr>\<rparr>"

definition crafting_world :: State where
  "crafting_world =
     State_init test_elevation
       [laden_pirate,
        (Rocks_init 4 None)\<lparr>features := (features (Rocks_init 4 None))\<lparr>stackable := Some 2\<rparr>\<rparr>,
        Log_init 5 None]"

definition axe_assembly :: Assembly where
  "axe_assembly =
     \<lparr>recipe_codename = ''axe'',
      sources = [[\<lparr>item_actor_id = 4, item_essence = ROCKS, item_quantity = 2\<rparr>],
                 [\<lparr>item_actor_id = 5, item_essence = LOGS, item_quantity = 1\<rparr>]]\<rparr>"

text \<open>A lone spruce, with the id the generator gives the first one.\<close>

definition spruce_world :: State where
  "spruce_world = State_init test_elevation [Spruce_init 7 (Some here)]"

text \<open>
  The worlds of \<open>test_merge_entities_fit\<close> and \<open>test_merge_entities_not_fit\<close>: two rock
  entities of the given stack sizes, the first in the left hand and the second in
  pocket 2 of an inventory.
\<close>

definition rock_of_size :: "ActorId \<Rightarrow> int \<Rightarrow> Entity" where
  "rock_of_size i n =
     (Rocks_init i None)\<lparr>features := (features (Rocks_init i None))\<lparr>stackable := Some n\<rparr>\<rparr>"

definition merge_world :: "int \<Rightarrow> int \<Rightarrow> State" where
  "merge_world n1 n2 = State_init test_elevation [rock_of_size 1 n1, rock_of_size 2 n2]"

definition merge_inventory :: "int \<Rightarrow> int \<Rightarrow> Inventory" where
  "merge_inventory n1 n2 =
     insert_entry
       (store_entry empty_inventory LEFT
          \<lparr>entry_id = 1, entry_essence = ROCKS, entry_quantity = n1, entry_codename = ''''\<rparr>)
       2
       \<lparr>entry_id = 2, entry_essence = ROCKS, entry_quantity = n2, entry_codename = ''''\<rparr>"

definition spruce_drops :: "Entity list" where
  "spruce_drops =
     [Log_init (- 1) (Some here), Log_init (- 1) (Some here), Log_init (- 1) (Some here)]"

definition felled_world :: State where
  "felled_world =
     State_init test_elevation
       [Spruce_init 7 (Some here), Log_init 8 (Some here), Log_init 9 (Some here),
        Log_init 10 (Some here)]"


section \<open>The preconditions of picking an item, in the words of the specification\<close>

text \<open>
  The preconditions \<open>PickItemTask\<close> is specified to fail softly on, for a picker and the
  target id the task holds: no target id, picker or item absent from the registry, picker
  lacking the inventory feature, item lacking the inventorable feature, or the distance
  between picker and item undefined or greater than 1.0. The second predicate is the part
  that concerns neither feature.
\<close>

definition pick_precondition_fails :: "State \<Rightarrow> ActorId \<Rightarrow> ActorId option \<Rightarrow> bool" where
  "pick_precondition_fails st who_id target =
     (case target of
        None \<Rightarrow> True
      | Some what \<Rightarrow>
          (case (get_entity st who_id, get_entity st what) of
             (Some entity, Some item) \<Rightarrow>
               inventory (features entity) = None
               \<or> inventorable (features item) = None
               \<or> (case calculate_distance st entity item of
                     Inr None \<Rightarrow> True
                   | Inr (Some distance) \<Rightarrow> 1.0 < distance
                   | Inl err \<Rightarrow> False)
           | _ \<Rightarrow> True))"

definition pick_proximity_fails :: "State \<Rightarrow> ActorId \<Rightarrow> ActorId option \<Rightarrow> bool" where
  "pick_proximity_fails st who_id target =
     (case target of
        None \<Rightarrow> True
      | Some what \<Rightarrow>
          (case (get_entity st who_id, get_entity st what) of
             (Some entity, Some item) \<Rightarrow>
               (case calculate_distance st entity item of
                  Inr None \<Rightarrow> True
                | Inr (Some distance) \<Rightarrow> 1.0 < distance
                | Inl err \<Rightarrow> False)
           | _ \<Rightarrow> True))"


section \<open>Great-circle distance\<close>

lemma haversine_half: "sin (0.5 * \<bar>x\<bar>) * sin (0.5 * \<bar>x\<bar>) = (1 - cos (x::real)) / 2"
proof -
  have a: "sin (0.5 * \<bar>x\<bar>) * sin (0.5 * \<bar>x\<bar>) = sin (x / 2) * sin (x / 2)"
    by (cases "0 \<le> x") (simp_all add: abs_if)
  have "cos x = cos (2 * (x / 2))" by simp
  also have "\<dots> = 1 - 2 * (sin (x / 2))\<^sup>2" by (rule cos_double_sin)
  finally have "cos x = 1 - 2 * (sin (x / 2) * sin (x / 2))" by (simp add: power2_eq_square)
  with a show ?thesis by simp
qed

lemma dot_bounds:
  fixes a b l :: real
  defines "D \<equiv> sin a * sin b + cos a * cos b * cos l"
  shows "- 1 \<le> D \<and> D \<le> 1"
proof -
  have e1: "D = cos (a - b) - cos a * cos b * (1 - cos l)"
    unfolding D_def by (simp add: cos_diff algebra_simps)
  have e2: "D = - cos (a + b) + cos a * cos b * (1 + cos l)"
    unfolding D_def by (simp add: cos_add algebra_simps)
  have p1: "0 \<le> 1 - cos l" and p2: "0 \<le> 1 + cos l"
    using cos_le_one[of l] cos_ge_minus_one[of l] by linarith+
  show ?thesis
  proof (cases "0 \<le> cos a * cos b")
    case True
    have "0 \<le> cos a * cos b * (1 - cos l)" "0 \<le> cos a * cos b * (1 + cos l)"
      using True p1 p2 by simp_all
    then show ?thesis
      using e1 e2 cos_le_one[of "a - b"] cos_le_one[of "a + b"]
      by linarith
  next
    case False
    then have "cos a * cos b \<le> 0" by simp
    then have "cos a * cos b * (1 - cos l) \<le> 0" "cos a * cos b * (1 + cos l) \<le> 0"
      using p1 p2 by (simp_all add: mult_nonpos_nonneg)
    then show ?thesis
      using e1 e2 cos_ge_minus_one[of "a + b"] cos_ge_minus_one[of "a - b"]
      by linarith
  qed
qed

lemma half_angle:
  fixes D :: real
  assumes "- 1 \<le> D" "D \<le> 1"
  shows "arcsin (sqrt ((1 - D) / 2)) = arccos D / 2"
proof -
  define t where "t = arccos D"
  have t: "0 \<le> t" "t \<le> pi" "cos t = D"
    using assms by (simp_all add: t_def arccos_lbound arccos_ubound)
  have "cos t = cos (2 * (t / 2))" by simp
  also have "\<dots> = 1 - 2 * (sin (t / 2))\<^sup>2" by (rule cos_double_sin)
  finally have "(1 - D) / 2 = (sin (t / 2))\<^sup>2" using t by simp
  moreover have "0 \<le> sin (t / 2)" using t by (intro sin_ge_zero) simp_all
  ultimately have "sqrt ((1 - D) / 2) = sin (t / 2)" by simp
  moreover have "arcsin (sin (t / 2)) = t / 2" using t by (intro arcsin_sin) simp_all
  ultimately show ?thesis by (simp add: t_def)
qed

lemma haversine_argument:
  fixes a b l1 l2 :: real
  shows "sin (0.5 * \<bar>a - b\<bar>) * sin (0.5 * \<bar>a - b\<bar>)
           + cos a * cos b * sin (0.5 * \<bar>l1 - l2\<bar>) * sin (0.5 * \<bar>l1 - l2\<bar>)
         = (1 - (sin a * sin b + cos a * cos b * cos (l1 - l2))) / 2"
proof -
  have "sin (0.5 * \<bar>a - b\<bar>) * sin (0.5 * \<bar>a - b\<bar>)
           + cos a * cos b * sin (0.5 * \<bar>l1 - l2\<bar>) * sin (0.5 * \<bar>l1 - l2\<bar>)
        = sin (0.5 * \<bar>a - b\<bar>) * sin (0.5 * \<bar>a - b\<bar>)
           + cos a * cos b * (sin (0.5 * \<bar>l1 - l2\<bar>) * sin (0.5 * \<bar>l1 - l2\<bar>))"
    by (simp add: mult.assoc)
  also have "\<dots> = (1 - cos (a - b)) / 2 + cos a * cos b * ((1 - cos (l1 - l2)) / 2)"
    by (simp only: haversine_half)
  also have "\<dots> = (1 - (sin a * sin b + cos a * cos b * cos (l1 - l2))) / 2"
    by (simp add: cos_diff field_simps)
  finally show ?thesis .
qed

lemma Coordinate_distance_arccos:
  "Coordinate_great_circle_distance_to c1 c2 r =
     Inr (r * arccos (sin (lat c1) * sin (lat c2) + cos (lat c1) * cos (lat c2) * cos (lon c1 - lon c2)))"
proof -
  define D where "D = sin (lat c1) * sin (lat c2) + cos (lat c1) * cos (lat c2) * cos (lon c1 - lon c2)"
  define h where "h = sin (0.5 * \<bar>lat c1 - lat c2\<bar>) * sin (0.5 * \<bar>lat c1 - lat c2\<bar>)
           + cos (lat c1) * cos (lat c2) * sin (0.5 * \<bar>lon c1 - lon c2\<bar>) * sin (0.5 * \<bar>lon c1 - lon c2\<bar>)"
  have D: "- 1 \<le> D" "D \<le> 1" using dot_bounds[of "lat c1" "lat c2" "lon c1 - lon c2"] by (simp_all add: D_def)
  have h: "h = (1 - D) / 2" unfolding h_def D_def by (rule haversine_argument)
  have h0: "0 \<le> h" "h \<le> 1" using D h by simp_all
  have s: "- 1 \<le> sqrt h" "sqrt h \<le> 1" using h0 by (simp_all add: order_trans[of "-1" 0])
  have u: "Coordinate_great_circle_distance_to c1 c2 r =
      (case py_sqrt h of Inl e \<Rightarrow> Inl e
       | Inr q \<Rightarrow> (case py_asin q of Inl e \<Rightarrow> Inl e | Inr a \<Rightarrow> Inr (2 * r * a)))"
    unfolding Coordinate_great_circle_distance_to_def Let_def h_def ..
  have "py_sqrt h = Inr (sqrt h)" using h0 by (simp add: py_sqrt_def)
  moreover have "py_asin (sqrt h) = Inr (arcsin (sqrt h))" using s by (simp add: py_asin_def)
  ultimately have "Coordinate_great_circle_distance_to c1 c2 r = Inr (2 * r * arcsin (sqrt h))"
    using u by simp
  also have "arcsin (sqrt h) = arccos D / 2" unfolding h using D by (rule half_angle)
  finally show ?thesis by (simp add: D_def)
qed


lemma to_coordinate_lat: "lat (to_coordinate p) = pi / 2 - theta p"
  by (simp add: to_coordinate_def spherical_to_geographical_radians_def Let_def)

lemma to_coordinate_lon_cases:
  "lon (to_coordinate p) = phi p \<or> lon (to_coordinate p) = phi p - 2 * pi"
  by (simp add: to_coordinate_def spherical_to_geographical_radians_def Let_def)

lemma to_point_theta: "theta (to_point c) = pi / 2 - lat c"
  by (simp add: to_point_def geographical_radians_to_spherical_def Let_def)

lemma to_point_phi_cases:
  "phi (to_point c) = lon c \<or> phi (to_point c) = lon c + 2 * pi"
  by (simp add: to_point_def geographical_radians_to_spherical_def Let_def)

lemma cos_shift_2pi: "cos (x - 2 * pi) = cos (x::real)" "cos (x + 2 * pi) = cos x"
  by (simp_all add: cos_diff cos_add)

lemma to_coordinate_cos_lon:
  "cos (lon (to_coordinate p) - lon (to_coordinate q)) = cos (phi p - phi q)"
proof -
  have a: "cos (phi p - phi q + 2 * pi) = cos (phi p - phi q)"
          "cos (phi p - phi q - 2 * pi) = cos (phi p - phi q)"
    by (rule cos_shift_2pi)+
  have r1: "phi p - (phi q - 2 * pi) = phi p - phi q + 2 * pi"
       and r2: "phi p - 2 * pi - phi q = phi p - phi q - 2 * pi"
       and r3: "phi p - 2 * pi - (phi q - 2 * pi) = phi p - phi q"
    by simp_all
  show ?thesis
    using to_coordinate_lon_cases[of p] to_coordinate_lon_cases[of q] a
    by (auto simp only: r1 r2 r3)
qed

lemma to_point_cos_phi:
  "cos (phi (to_point c1) - phi (to_point c2)) = cos (lon c1 - lon c2)"
proof -
  have a: "cos (lon c1 - lon c2 + 2 * pi) = cos (lon c1 - lon c2)"
          "cos (lon c1 - lon c2 - 2 * pi) = cos (lon c1 - lon c2)"
    by (rule cos_shift_2pi)+
  have r1: "lon c1 - (lon c2 + 2 * pi) = lon c1 - lon c2 - 2 * pi"
       and r2: "lon c1 + 2 * pi - lon c2 = lon c1 - lon c2 + 2 * pi"
       and r3: "lon c1 + 2 * pi - (lon c2 + 2 * pi) = lon c1 - lon c2"
    by simp_all
  show ?thesis
    using to_point_phi_cases[of c1] to_point_phi_cases[of c2] a
    by (auto simp only: r1 r2 r3)
qed

lemma central_angle_arccos:
  "central_angle p q =
     arccos (cos (theta p) * cos (theta q) + sin (theta p) * sin (theta q) * cos (phi p - phi q))"
  by (simp add: central_angle_def dot3_def spherical_to_cartesian_def Let_def cos_diff algebra_simps)

lemma to_coordinate_sin_cos_lat:
  "sin (lat (to_coordinate p)) = cos (theta p)" "cos (lat (to_coordinate p)) = sin (theta p)"
  by (simp_all add: to_coordinate_lat sin_diff cos_diff)

lemma to_point_sin_cos_theta:
  "cos (theta (to_point c)) = sin (lat c)" "sin (theta (to_point c)) = cos (lat c)"
  by (simp_all add: to_point_theta sin_diff cos_diff)

lemma Point_distance_central:
  "Point_great_circle_distance_to p1 p2 r = Inr (r * central_angle p1 p2)"
  by (simp only: Point_great_circle_distance_to_def Let_def Coordinate_distance_arccos
      to_coordinate_sin_cos_lat to_coordinate_cos_lon central_angle_arccos)

lemma Coordinate_distance_central:
  "Coordinate_great_circle_distance_to c1 c2 r = Inr (r * central_angle (to_point c1) (to_point c2))"
  by (simp only: Coordinate_distance_arccos central_angle_arccos to_point_sin_cos_theta
      to_point_cos_phi)

text \<open>
  Claim C7. Over exact real arithmetic, \<open>great_circle_distance_to(other, r)\<close> returns
  \<open>r * d\<close>, where \<open>d\<close> is the central angle of the two points: the haversine expression
  never leaves the domains of \<open>sqrt\<close> and \<open>asin\<close>, and equals the radius times the angular
  separation. This holds for \<open>Point\<close> and for \<open>Coordinate\<close>, for every radius and every
  pair of positions.
\<close>

theorem great_circle_distance_is_radius_times_angle:
  "Point_great_circle_distance_to p1 p2 r = Inr (r * central_angle p1 p2)
   \<and> Coordinate_great_circle_distance_to c1 c2 r
       = Inr (r * central_angle (to_point c1) (to_point c2))"
  by (simp add: Point_distance_central Coordinate_distance_central)

section \<open>Moving along a bearing\<close>

lemma cos_atan2: "sqrt (x\<^sup>2 + y\<^sup>2) * cos (atan2 y x) = x"
proof -
  have pos: "sqrt (x\<^sup>2 + y\<^sup>2) * (1 / sqrt (1 + (y / x)\<^sup>2)) = \<bar>x\<bar>" if "x \<noteq> 0"
  proof -
    have "x\<^sup>2 + y\<^sup>2 = x\<^sup>2 * (1 + (y / x)\<^sup>2)"
      using that by (simp add: power_divide field_simps)
    then have "sqrt (x\<^sup>2 + y\<^sup>2) = \<bar>x\<bar> * sqrt (1 + (y / x)\<^sup>2)"
      by (simp add: real_sqrt_mult)
    moreover have "0 < sqrt (1 + (y / x)\<^sup>2)"
      by (simp add: add_pos_nonneg)
    ultimately show ?thesis by simp
  qed
  consider "0 < x" | "x < 0" "0 \<le> y" | "x < 0" "y < 0" | "x = 0" by linarith
  then show ?thesis
  proof cases
    case 1
    then show ?thesis using pos[of] by (simp add: atan2_def cos_arctan)
  next
    case 2
    then show ?thesis using pos by (simp add: atan2_def cos_arctan cos_add)
  next
    case 3
    then show ?thesis using pos by (simp add: atan2_def cos_arctan cos_diff)
  next
    case 4
    then show ?thesis by (simp add: atan2_def)
  qed
qed


lemma destination_algebra:
  fixes s1 c1 sd cd sb cb :: real
  assumes "s1\<^sup>2 + c1\<^sup>2 = 1" "sd\<^sup>2 + cd\<^sup>2 = 1" "sb\<^sup>2 + cb\<^sup>2 = 1"
  defines "s \<equiv> s1 * cd + c1 * sd * cb"
  shows "(cd - s1 * s)\<^sup>2 + (sb * sd * c1)\<^sup>2 = c1\<^sup>2 * (1 - s\<^sup>2)"
  using assms unfolding s_def by algebra

lemma Coordinate_moved_by_dot:
  assumes lat: "- (pi / 2) \<le> lat p" "lat p \<le> pi / 2" and r: "r \<noteq> 0"
  shows "\<exists>q. Coordinate_moved_by p d b r = Inr q
           \<and> sin (lat p) * sin (lat q) + cos (lat p) * cos (lat q) * cos (lon p - lon q)
               = cos (d / r)"
proof -
  define s1 where "s1 = sin (lat p)"
  define c1 where "c1 = cos (lat p)"
  define sd where "sd = sin (d / r)"
  define cd where "cd = cos (d / r)"
  define s where "s = s1 * cd + c1 * sd * cos b"
  define lat2 where "lat2 = arcsin s"
  define y where "y = sin b * sd * c1"
  define x where "x = cd - s1 * sin lat2"
  define q where "q = \<lparr>lat = lat2, lon = lon p + atan2 y x\<rparr>"
  have sb: "- 1 \<le> s" "s \<le> 1"
    using dot_bounds[of "lat p" "pi / 2 - d / r" b]
    by (simp_all add: s_def s1_def c1_def sd_def cd_def sin_diff cos_diff)
  have sl: "sin lat2 = s" using sb by (simp add: lat2_def)
  have cl: "cos lat2 = sqrt (1 - s\<^sup>2)" using sb by (simp add: lat2_def cos_arcsin)
  have c1: "0 \<le> c1" using lat by (simp add: c1_def cos_ge_zero)
  have s2: "0 \<le> 1 - s\<^sup>2" using sb by (simp add: abs_square_le_1 abs_le_iff)
  have mv: "Coordinate_moved_by p d b r = Inr q"
    using r sb
    by (simp add: Coordinate_moved_by_def Let_def py_asin_def q_def x_def y_def lat2_def[symmetric]
        s_def[symmetric] s1_def[symmetric] c1_def[symmetric] sd_def[symmetric] cd_def[symmetric])
  have "x\<^sup>2 + y\<^sup>2 = c1\<^sup>2 * (1 - s\<^sup>2)"
    unfolding x_def y_def sl s_def
    by (rule destination_algebra) (simp_all add: s1_def c1_def sd_def cd_def)
  then have "sqrt (x\<^sup>2 + y\<^sup>2) = c1 * cos lat2"
    using c1 by (simp add: cl real_sqrt_mult)
  then have "c1 * cos lat2 * cos (atan2 y x) = x"
    using cos_atan2[of x y] by simp
  moreover have "cos (lon p - lon q) = cos (atan2 y x)"
    by (simp add: q_def)
  ultimately have "s1 * sin (lat q) + c1 * cos (lat q) * cos (lon p - lon q) = cd"
    by (simp add: q_def x_def)
  then show ?thesis using mv by (auto simp: s1_def c1_def cd_def)
qed


lemma Coordinate_moved_by_distance:
  assumes "- (pi / 2) \<le> lat p" "lat p \<le> pi / 2" "0 < r" "0 \<le> d" "d \<le> pi * r"
  shows "\<exists>q. Coordinate_moved_by p d b r = Inr q
           \<and> Coordinate_great_circle_distance_to p q r = Inr d"
proof -
  from assms obtain q where q: "Coordinate_moved_by p d b r = Inr q"
      "sin (lat p) * sin (lat q) + cos (lat p) * cos (lat q) * cos (lon p - lon q) = cos (d / r)"
    using Coordinate_moved_by_dot[of p r d b] by auto
  have "0 \<le> d / r" "d / r \<le> pi"
    using assms by (simp_all add: field_simps)
  then have "arccos (cos (d / r)) = d / r" by (rule arccos_cos)
  then have "Coordinate_great_circle_distance_to p q r = Inr d"
    using assms(3) by (simp add: Coordinate_distance_arccos q(2))
  with q(1) show ?thesis by blast
qed

lemma to_point_to_coordinate_theta: "theta (to_point (to_coordinate p)) = theta p"
  by (simp add: to_point_theta to_coordinate_lat)

lemma to_point_to_coordinate_cos_phi:
  "cos (phi (to_point (to_coordinate p)) - z) = cos (phi p - z)"
proof -
  have a: "cos (phi p - z + 2 * pi) = cos (phi p - z)" "cos (phi p - z - 2 * pi) = cos (phi p - z)"
    by (rule cos_shift_2pi)+
  have r1: "phi p + 2 * pi - z = phi p - z + 2 * pi"
    and r2: "phi p - 2 * pi - z = phi p - z - 2 * pi"
    and r3: "phi p - 2 * pi + 2 * pi - z = phi p - z"
    by simp_all
  show ?thesis
    using to_point_phi_cases[of "to_coordinate p"] to_coordinate_lon_cases[of p] a
    by (auto simp only: r1 r2 r3)
qed

lemma central_angle_roundtrip:
  "central_angle (to_point (to_coordinate p)) x = central_angle p x"
  by (simp only: central_angle_arccos to_point_to_coordinate_theta to_point_to_coordinate_cos_phi)

lemma Point_moved_by_distance:
  assumes "0 \<le> theta p" "theta p \<le> pi" "0 < r" "0 \<le> d" "d \<le> pi * r"
  shows "\<exists>q. Point_moved_by p d b r = Inr q \<and> Point_great_circle_distance_to p q r = Inr d"
proof -
  have "- (pi / 2) \<le> lat (to_coordinate p)" "lat (to_coordinate p) \<le> pi / 2"
    using assms(1,2) by (simp_all add: to_coordinate_lat)
  then obtain c where c: "Coordinate_moved_by (to_coordinate p) d b r = Inr c"
      "Coordinate_great_circle_distance_to (to_coordinate p) c r = Inr d"
    using Coordinate_moved_by_distance[OF _ _ assms(3,4,5), of "to_coordinate p" b] by blast
  have "Point_moved_by p d b r = Inr (to_point c)"
    by (simp add: Point_moved_by_def c(1))
  moreover have "Point_great_circle_distance_to p (to_point c) r = Inr d"
    using c(2) by (simp only: Point_distance_central Coordinate_distance_central central_angle_roundtrip)
  ultimately show ?thesis by blast
qed

text \<open>
  Claim C6, amended. For a radius \<open>r > 0\<close>, a distance \<open>0 \<le> d \<le> pi * r\<close> and any
  bearing \<open>b\<close>: a \<open>Coordinate\<close> whose latitude lies in \<open>[-pi/2, pi/2]\<close> is moved by
  \<open>moved_by(d, b, r)\<close> to a coordinate at great-circle distance exactly \<open>d\<close>, and so is a
  \<open>Point\<close> whose \<open>theta\<close> lies in \<open>[0, pi]\<close> (the position of an entity). With
  \<open>d = v * t\<close> this is the advance of an entity moving at speed \<open>v\<close> for an interval \<open>t\<close>.
\<close>

theorem moved_by_advances_by_distance:
  assumes "0 < r" "0 \<le> d" "d \<le> pi * r"
  shows "(- (pi / 2) \<le> lat c \<and> lat c \<le> pi / 2 \<longrightarrow>
            (\<exists>c'. Coordinate_moved_by c d b r = Inr c'
                  \<and> Coordinate_great_circle_distance_to c c' r = Inr d))
       \<and> (0 \<le> theta p \<and> theta p \<le> pi \<longrightarrow>
            (\<exists>p'. Point_moved_by p d b r = Inr p'
                  \<and> Point_great_circle_distance_to p p' r = Inr d))"
  using assms Coordinate_moved_by_distance[of c r d b] Point_moved_by_distance[of p r d b]
  by blast

text \<open>The theorem at radius 2, distance 1 and bearing \<open>pi/2\<close>, starting on the equator.\<close>

theorem moved_by_advances_by_distance_witness:
  "(\<exists>c'. Coordinate_moved_by \<lparr>lat = 0, lon = 0\<rparr> 1 (pi / 2) 2 = Inr c'
        \<and> Coordinate_great_circle_distance_to \<lparr>lat = 0, lon = 0\<rparr> c' 2 = Inr 1)
   \<and> (\<exists>p'. Point_moved_by \<lparr>theta = pi / 2, phi = 0\<rparr> 1 (pi / 2) 2 = Inr p'
        \<and> Point_great_circle_distance_to \<lparr>theta = pi / 2, phi = 0\<rparr> p' 2 = Inr 1)"
proof -
  have h: "(0::real) < 2" "(0::real) \<le> 1" "(1::real) \<le> pi * 2"
    using pi_ge_two by simp_all
  show ?thesis
    using moved_by_advances_by_distance[OF h, of "\<lparr>lat = 0, lon = 0\<rparr>" "pi / 2"
        "\<lparr>theta = pi / 2, phi = 0\<rparr>"]
    by simp
qed

text \<open>
  The latitude bound is needed. \<open>Coordinate(pi, 0)\<close> moved by distance 0 on the unit sphere
  becomes \<open>Coordinate(0, 0)\<close>, because \<open>asin\<close> folds the latitude back into
  \<open>[-pi/2, pi/2]\<close>; the distance between the two is \<open>pi\<close>, not 0.
\<close>

theorem moved_by_out_of_range_latitude_counterexample:
  "Coordinate_moved_by \<lparr>lat = pi, lon = 0\<rparr> 0 0 1 = Inr \<lparr>lat = 0, lon = 0\<rparr>
   \<and> Coordinate_great_circle_distance_to \<lparr>lat = pi, lon = 0\<rparr> \<lparr>lat = 0, lon = 0\<rparr> 1 = Inr pi
   \<and> Inr pi \<noteq> (Inr 0 :: py_error + real)"
  by (simp add: Coordinate_moved_by_def Coordinate_great_circle_distance_to_def Let_def
      py_asin_def py_sqrt_def atan2_def)

section \<open>Point to Coordinate and back\<close>

text \<open>
  Claim C10, amended. For every \<open>Point\<close> with \<open>theta\<close> in \<open>[0, pi]\<close> and \<open>phi\<close> in
  \<open>[0, 2*pi)\<close>, \<open>to_coordinate\<close> followed by \<open>to_point\<close> returns the same point; for
  \<open>phi = 2*pi\<close> it returns the point with the same \<open>theta\<close> and \<open>phi = 0\<close>.
\<close>

theorem to_coordinate_to_point_roundtrip:
  assumes "0 \<le> theta p" "theta p \<le> pi"
  shows "(0 \<le> phi p \<and> phi p < 2 * pi \<longrightarrow> to_point (to_coordinate p) = p)
       \<and> (phi p = 2 * pi \<longrightarrow> to_point (to_coordinate p) = p\<lparr>phi := 0\<rparr>)"
  using assms
  by (cases p)
     (simp add: to_point_def to_coordinate_def spherical_to_geographical_radians_def
        geographical_radians_to_spherical_def Let_def)

text \<open>The theorem at \<open>theta = pi/2\<close>, \<open>phi = 3*pi/2\<close>, where the longitude is negative.\<close>

theorem to_coordinate_to_point_roundtrip_witness:
  "to_point (to_coordinate \<lparr>theta = pi / 2, phi = 3 * pi / 2\<rparr>) = \<lparr>theta = pi / 2, phi = 3 * pi / 2\<rparr>"
proof -
  have h: "0 \<le> theta \<lparr>theta = pi / 2, phi = 3 * pi / 2\<rparr>"
          "theta \<lparr>theta = pi / 2, phi = 3 * pi / 2\<rparr> \<le> pi"
    by simp_all
  have "0 \<le> phi \<lparr>theta = pi / 2, phi = 3 * pi / 2\<rparr>
        \<and> phi \<lparr>theta = pi / 2, phi = 3 * pi / 2\<rparr> < 2 * pi"
    by simp
  with to_coordinate_to_point_roundtrip[OF h] show ?thesis by blast
qed

text \<open>
  At \<open>phi = 2*pi\<close> the longitude is 0, and the way back gives \<open>phi = 0\<close>: the same
  direction, but not the same number.
\<close>

theorem roundtrip_phi_two_pi_counterexample:
  "phi (to_point (to_coordinate \<lparr>theta = pi / 2, phi = 2 * pi\<rparr>)) = 0
   \<and> phi (to_point (to_coordinate \<lparr>theta = pi / 2, phi = 2 * pi\<rparr>))
       \<noteq> phi \<lparr>theta = pi / 2, phi = 2 * pi\<rparr>"
  by (simp add: to_point_def to_coordinate_def spherical_to_geographical_radians_def
      geographical_radians_to_spherical_def Let_def)


section \<open>The animation of an action\<close>

lemma constructor_lookup:
  "map_of ANIMITION_CONSTRUCTORS ConfigurationAction_type = Some ConfigurationAnimation_init"
  "map_of ANIMITION_CONSTRUCTORS CraftStartAction_type = Some CraftStartAnimation_init"
  "map_of ANIMITION_CONSTRUCTORS CraftEndAction_type = Some CraftEndAnimation_init"
  "map_of ANIMITION_CONSTRUCTORS CreateActorsAction_type = Some CreateActorsAnimation_init"
  "map_of ANIMITION_CONSTRUCTORS DeleteActorsAction_type = Some DeleteActorsAnimation_init"
  "map_of ANIMITION_CONSTRUCTORS MovementAction_type = Some MovementAnimation_init"
  "map_of ANIMITION_CONSTRUCTORS LocalizeAction_type = Some LocalizeAnimation_init"
  "map_of ANIMITION_CONSTRUCTORS StatUpdateAction_type = Some StatUpdateAnimation_init"
  "map_of ANIMITION_CONSTRUCTORS PickStartAction_type = Some PickStartAnimation_init"
  "map_of ANIMITION_CONSTRUCTORS PickEndAction_type = Some PickEndAnimation_init"
  "map_of ANIMITION_CONSTRUCTORS UpdateInventoryAction_type = Some UpdateInventoryAnimation_init"
  "map_of ANIMITION_CONSTRUCTORS DamageAction_type = Some DamageAnimation_init"
  by (simp_all add: ANIMITION_CONSTRUCTORS_def)

text \<open>
  Claim C8. \<open>animation_from_action\<close> is total over the twelve action classes: for every
  action it returns an animation, never an error, and the animation is the one of the
  class the table maps the action's class to, built from the action's own attributes. In
  particular the table lookup never fails.
\<close>

theorem animation_from_action_total:
  "\<exists>anim. animation_from_action now action = Inr anim
     \<and> animation_from_action now action \<noteq> Inl KeyError
     \<and> (case action of
          ConfigurationAction h e \<Rightarrow> anim = ConfigurationAnimation (Animation_init now None) h e
        | CraftStartAction c \<Rightarrow> anim = CraftStartAnimation (Animation_init now None) c
        | CraftEndAction c \<Rightarrow> anim = CraftEndAnimation (Animation_init now None) c
        | CreateActorsAction as \<Rightarrow> anim = CreateActorsAnimation (Animation_init now None) as
        | DeleteActorsAction ids \<Rightarrow> anim = DeleteActorsAnimation (Animation_init now None) ids
        | MovementAction a speed bearing duration \<Rightarrow>
            anim = MovementAnimation (Animation_init now (Some duration)) a speed bearing 0
        | LocalizeAction a pos \<Rightarrow> anim = LocalizeAnimation (Animation_init now None) a pos
        | StatUpdateAction a stats \<Rightarrow> anim = StatUpdateAnimation (Animation_init now None) a stats
        | PickStartAction who what \<Rightarrow> anim = PickStartAnimation (Animation_init now None) who what
        | PickEndAction who \<Rightarrow> anim = PickEndAnimation (Animation_init now None) who
        | UpdateInventoryAction owner i \<Rightarrow>
            anim = UpdateInventoryAnimation (Animation_init now None) owner i
        | DamageAction dealer receiver variant hand \<Rightarrow>
            anim = DamageAnimation (Animation_init now None) dealer receiver variant hand)"
  by (cases action) (simp_all add: animation_from_action_def constructor_lookup)


section \<open>The queries of the state never raise\<close>

lemma calculate_distance_total: "\<exists>d. calculate_distance st a b = Inr d"
  by (simp add: calculate_distance_def Point_distance_central split: option.split)

lemma closest_within_total: "\<exists>r. closest_within st origin m md es best = Inr r"
proof (induction es arbitrary: best)
  case Nil
  show ?case by simp
next
  case (Cons e es)
  obtain d where d: "calculate_distance st origin e = Inr d"
    using calculate_distance_total by blast
  show ?case using Cons d by (cases d) auto
qed

lemma find_closest_delivering_total:
  "\<exists>r. find_closest_delivering_within st i claims md = Inr r"
  by (simp add: find_closest_delivering_within_def closest_within_total split: option.split)

lemma find_closest_absorbing_total:
  "\<exists>r. find_closest_absorbing_within st i claims md = Inr r"
  by (simp add: find_closest_absorbing_within_def closest_within_total split: option.split)

lemma distance_here: "Point_great_circle_distance_to here here 1000 = Inr 0"
  by (simp add: Point_distance_central central_angle_arccos here_def)

lemma calculate_distance_not_Inl [simp]: "calculate_distance st a b \<noteq> Inl err"
  using calculate_distance_total[of st a b] by auto

lemma find_closest_delivering_not_Inl [simp]:
  "find_closest_delivering_within st i claims md \<noteq> Inl err"
  using find_closest_delivering_total[of st i claims md] by auto

lemma find_closest_absorbing_not_Inl [simp]:
  "find_closest_absorbing_within st i claims md \<noteq> Inl err"
  using find_closest_absorbing_total[of st i claims md] by auto

section \<open>Picking an item\<close>

lemma PickItemTask_start_total:
  "\<exists>x. PickItemTask_start st who_id what_id hand job = Inr x"
  by (auto simp: PickItemTask_start_def split: option.splits sum.splits)

lemma PickItemTask_start_result:
  assumes "PickItemTask_start st who_id what_id hand job = Inr (acts, t', st')"
  shows "st' = st
     \<and> (\<exists>target job'. t' = PickItemTask who_id target hand job'
           \<and> (acts = [] \<longrightarrow> job' = job)
           \<and> (what_id \<noteq> None \<longrightarrow> target = what_id)
           \<and> (pick_proximity_fails st who_id target \<longrightarrow> acts = []))"
  using assms
  by (auto simp: PickItemTask_start_def pick_proximity_fails_def PickItemTask_MAX_DISTANCE_def
      split: option.splits sum.splits if_splits)

lemma PickItemTask_finish_fails:
  "pick_precondition_fails st who_id target \<Longrightarrow> PickItemTask_finish st who_id target hand = Inr ([], st)"
  by (auto simp: PickItemTask_finish_def pick_precondition_fails_def PickItemTask_MAX_DISTANCE_def
      split: option.splits sum.splits)

lemma PickItemTask_finish_total:
  "\<exists>acts st'. PickItemTask_finish st who_id target hand = Inr (acts, st')"
  by (auto simp: PickItemTask_finish_def Let_def split: option.splits sum.splits)

text \<open>
  Claim C5, amended. \<open>PickItemTask.start\<close> never raises and leaves the state unchanged;
  it keeps a given target id, and when no target id is resolved, the picker or the item
  is absent from the registry, or their distance is undefined or greater than 1.0, it
  returns the empty list and \<open>get_job()\<close> returns none afterwards. \<open>PickItemTask.finish\<close>
  never raises, and returns the empty list and leaves the state unchanged when any of
  these holds or the picker lacks the inventory feature or the item lacks the inventorable
  feature. (\<open>start\<close> does not look at the two features.)
\<close>

theorem PickItemTask_fails_soft:
  "\<exists>acts target job'.
     start st (PickItemTask_init who_id what_id hand)
       = Inr (acts, PickItemTask who_id target hand job', st)
     \<and> (what_id \<noteq> None \<longrightarrow> target = what_id)
     \<and> (pick_proximity_fails st who_id target \<longrightarrow>
           acts = [] \<and> get_job (PickItemTask who_id target hand job') = None)
     \<and> (pick_precondition_fails st who_id target \<longrightarrow>
           PickItemTask_finish st who_id target hand = Inr ([], st))
     \<and> (\<exists>acts' st'. PickItemTask_finish st who_id target hand = Inr (acts', st'))"
proof -
  obtain acts t' st' where s: "PickItemTask_start st who_id what_id hand None = Inr (acts, t', st')"
    using PickItemTask_start_total[of st who_id what_id hand None] by auto
  from PickItemTask_start_result[OF s] obtain target job' where
    r: "st' = st" "t' = PickItemTask who_id target hand job'" "acts = [] \<longrightarrow> job' = None"
       "what_id \<noteq> None \<longrightarrow> target = what_id" "pick_proximity_fails st who_id target \<longrightarrow> acts = []"
    by blast
  have "start st (PickItemTask_init who_id what_id hand)
          = Inr (acts, PickItemTask who_id target hand job', st)"
    using s r(1,2) by (simp add: PickItemTask_init_def)
  moreover have "pick_proximity_fails st who_id target \<longrightarrow>
      acts = [] \<and> get_job (PickItemTask who_id target hand job') = None"
    using r(3,5) by simp
  ultimately show ?thesis
    using r(4) PickItemTask_finish_fails[of st who_id target hand]
      PickItemTask_finish_total[of st who_id target hand]
    by blast
qed

lemma stored_rocks_entities:
  "get_entity stored_rocks_world 1 = Some (Pirate_init 1 (Some here))"
  "get_entity stored_rocks_world 4 = Some (Rocks_init 4 None)"
  by (simp_all add: get_entity_def stored_rocks_world_def State_init_def Pirate_init_def
      Rocks_init_def)

lemma stored_rocks_proximity_fails: "pick_proximity_fails stored_rocks_world 1 (Some 4)"
  by (simp add: pick_proximity_fails_def stored_rocks_entities calculate_distance_def
      Rocks_init_def Pirate_init_def)

lemma stored_rocks_precondition_fails: "pick_precondition_fails stored_rocks_world 1 (Some 4)"
  by (simp add: pick_precondition_fails_def stored_rocks_entities calculate_distance_def
      Rocks_init_def Pirate_init_def)

text \<open>
  The theorem for a pirate picking rocks that have no position: the distance is undefined.
\<close>

theorem PickItemTask_fails_soft_witness:
  "pick_proximity_fails stored_rocks_world 1 (Some 4)
   \<and> pick_precondition_fails stored_rocks_world 1 (Some 4)
   \<and> start stored_rocks_world (PickItemTask_init 1 (Some 4) LEFT)
       = Inr ([], PickItemTask 1 (Some 4) LEFT None, stored_rocks_world)
   \<and> get_job (PickItemTask 1 (Some 4) LEFT None) = None
   \<and> PickItemTask_finish stored_rocks_world 1 (Some 4) LEFT = Inr ([], stored_rocks_world)"
  using PickItemTask_fails_soft[of stored_rocks_world 1 "Some 4" LEFT]
    stored_rocks_proximity_fails stored_rocks_precondition_fails
  by auto

lemma warrior_world_entities:
  "get_entity warrior_world 2 = Some (Warrior_init 2 (Some here))"
  "get_entity warrior_world 4 = Some (Rocks_init 4 (Some here))"
  by (simp_all add: get_entity_def warrior_world_def State_init_def Warrior_init_def
      Rocks_init_def)

lemma warrior_world_distance:
  "calculate_distance warrior_world (Warrior_init 2 (Some here)) (Rocks_init 4 (Some here))
     = Inr (Some 0)"
  by (simp add: calculate_distance_def Warrior_init_def Rocks_init_def warrior_world_def
      State_init_def test_elevation_def get_radius_def distance_here)

text \<open>
  A warrior has no inventory, so a precondition of picking fails; still \<open>start\<close>, given
  rocks at the warrior's own position, returns a \<open>PickStartAction\<close> and stores a job.
\<close>

theorem PickItemTask_start_ignores_features_counterexample:
  "inventory (features (Warrior_init 2 (Some here))) = None
   \<and> pick_precondition_fails warrior_world 2 (Some 4)
   \<and> start warrior_world (PickItemTask_init 2 (Some 4) LEFT)
       = Inr ([PickStartAction 2 4],
              PickItemTask 2 (Some 4) LEFT (Some (WaitJob 1 [FinishedEvent 2])),
              warrior_world)
   \<and> get_job (PickItemTask 2 (Some 4) LEFT (Some (WaitJob 1 [FinishedEvent 2])))
       = Some (WaitJob 1 [FinishedEvent 2])"
  by (simp add: PickItemTask_init_def PickItemTask_start_def pick_precondition_fails_def
      warrior_world_entities warrior_world_distance PickItemTask_MAX_DISTANCE_def
      PickItemTask_PICK_DURATION_def)
    (simp add: Warrior_init_def no_features_def)

section \<open>Crafting\<close>

text \<open>
  Claim C9. Whenever the crafter's inventory has no free hand, \<open>CraftTask.start\<close> returns
  the empty list, leaves task and state as they are, and \<open>get_job()\<close> returns none,
  whatever the assembly: the free-hand check precedes the validation of the recipe.
\<close>

theorem CraftTask_needs_free_hand:
  assumes "get_entity st crafter_id = Some crafter"
    and "inventory (features crafter) = Some inv'"
    and "get_free_hand inv' = None"
  shows "start st (CraftTask_init crafter_id assembly)
           = Inr ([], CraftTask_init crafter_id assembly, st)
       \<and> get_job (CraftTask_init crafter_id assembly) = None"
  using assms by (simp add: CraftTask_init_def CraftTask_start_def)

lemma crafting_world_crafter: "get_entity crafting_world 1 = Some laden_pirate"
  by (simp add: get_entity_def crafting_world_def State_init_def laden_pirate_def Pirate_init_def)

lemma laden_pirate_inventory: "inventory (features laden_pirate) = Some laden_inventory"
  by (simp add: laden_pirate_def)

lemma laden_inventory_no_free_hand: "get_free_hand laden_inventory = None"
  by (simp add: get_free_hand_def laden_inventory_def store_entry_def set_hand_entry_def
      empty_inventory_def)

lemma axe_assembly_valid: "validate_assembly crafting_world axe_assembly laden_inventory"
  by (simp add: validate_assembly_def axe_assembly_def holds_item_def all_entries_def
      laden_inventory_def store_entry_def set_hand_entry_def empty_inventory_def)

text \<open>
  The theorem for a pirate whose hands hold the two rocks and the log that the assembly of
  an axe asks for: the assembly is valid, and still nothing starts.
\<close>

theorem CraftTask_needs_free_hand_witness:
  "validate_assembly crafting_world axe_assembly laden_inventory
   \<and> start crafting_world (CraftTask_init 1 axe_assembly)
       = Inr ([], CraftTask_init 1 axe_assembly, crafting_world)
   \<and> get_job (CraftTask_init 1 axe_assembly) = None"
  using CraftTask_needs_free_hand[OF crafting_world_crafter laden_pirate_inventory
      laden_inventory_no_free_hand, of axe_assembly] axe_assembly_valid
  by simp

section \<open>An empty start and the job\<close>

lemma CraftTask_start_result:
  assumes "CraftTask_start st crafter_id assembly job = Inr (acts, t', st')"
  shows "acts = [] \<longrightarrow> t' = CraftTask crafter_id assembly job"
  using assms by (auto simp: CraftTask_start_def split: option.splits if_splits)

lemma UseItemTask_start_result:
  assumes "UseItemTask_start st performer_id item_id receiver_id hand job = Inr (acts, t', st')"
  shows "acts = []
     \<and> (get_job t' = job
         \<or> (\<exists>rid item receiver.
               get_job t' = Some (DamageJob performer_id rid item_id hand
                                   [FinishedEvent performer_id])
               \<and> get_entity st item_id = Some item
               \<and> get_entity st rid = Some receiver
               \<and> get_first_absorbed (features receiver) (delivery_claims (features item))
                   = Some PAIN))"
  using assms
  by (auto simp: UseItemTask_start_def Let_def
      split: option.splits sum.splits if_splits Claim.splits)

text \<open>
  Claim C1, amended. \<open>MovementTask.start\<close> and \<open>WalkTask.start\<close> never return an empty
  list. For a \<open>PickItemTask\<close> and a \<open>CraftTask\<close> as constructed, if \<open>start\<close> returns an
  empty list then \<open>get_job()\<close> returns none. \<open>UseItemTask.start\<close> always returns the
  empty list, and \<open>get_job()\<close> then returns the job the task had or, for a registered
  receiver whose first absorbed claim of the item's is PAIN, the \<open>DamageJob\<close> that \<open>start\<close>
  stored; \<open>InventoryUpdateTask.start\<close> always returns the empty list and \<open>get_job()\<close>
  always returns its \<open>WaitJob\<close>.
\<close>

theorem empty_start_and_job:
  assumes "start st t = Inr (acts, t', st')"
  shows "(\<forall>e s b j. t = MovementTask e s b j \<longrightarrow> acts \<noteq> [])
       \<and> (\<forall>e s b d. t = WalkTask e s b d \<longrightarrow> acts \<noteq> [])
       \<and> (\<forall>w x h. t = PickItemTask_init w x h \<longrightarrow> acts = [] \<longrightarrow> get_job t' = None)
       \<and> (\<forall>c a. t = CraftTask_init c a \<longrightarrow> acts = [] \<longrightarrow> get_job t' = None)
       \<and> (\<forall>p i r h j. t = UseItemTask p i r h j \<longrightarrow>
             acts = []
             \<and> (get_job t' = j
                 \<or> (\<exists>rid item receiver.
                       get_job t' = Some (DamageJob p rid i h [FinishedEvent p])
                       \<and> get_entity st i = Some item
                       \<and> get_entity st rid = Some receiver
                       \<and> get_first_absorbed (features receiver)
                             (delivery_claims (features item)) = Some PAIN)))
       \<and> (\<forall>p h i u. t = InventoryUpdateTask p h i u \<longrightarrow>
             acts = []
             \<and> get_job t' = Some (WaitJob InventoryUpdateTask_SWAP_DURATION [FinishedEvent p]))"
proof (intro conjI allI impI)
  fix e s b j assume "t = MovementTask e s b j"
  then show "acts \<noteq> []" using assms by auto
next
  fix e s b d assume "t = WalkTask e s b d"
  then show "acts \<noteq> []" using assms by auto
next
  fix w x h assume t: "t = PickItemTask_init w x h" and e: "acts = []"
  from t assms have "PickItemTask_start st w x h None = Inr (acts, t', st')"
    by (simp add: PickItemTask_init_def)
  from PickItemTask_start_result[OF this] e show "get_job t' = None" by auto
next
  fix c a assume t: "t = CraftTask_init c a" and e: "acts = []"
  from t assms have "CraftTask_start st c a None = Inr (acts, t', st')"
    by (simp add: CraftTask_init_def)
  from CraftTask_start_result[OF this] e show "get_job t' = None" by auto
next
  fix p i r h j assume t: "t = UseItemTask p i r h j"
  with assms have u: "UseItemTask_start st p i r h j = Inr (acts, t', st')" by simp
  from UseItemTask_start_result[OF u] show "acts = []" by blast
  from UseItemTask_start_result[OF u]
  show "get_job t' = j
      \<or> (\<exists>rid item receiver.
            get_job t' = Some (DamageJob p rid i h [FinishedEvent p])
            \<and> get_entity st i = Some item
            \<and> get_entity st rid = Some receiver
            \<and> get_first_absorbed (features receiver) (delivery_claims (features item))
                = Some PAIN)"
    by blast
next
  fix p h i u assume t: "t = InventoryUpdateTask p h i u"
  with assms show "acts = []" by auto
  from t assms
  show "get_job t' = Some (WaitJob InventoryUpdateTask_SWAP_DURATION [FinishedEvent p])"
    by auto
qed

lemma empty_world_pick:
  "start (generate_basic 1000) (PickItemTask_init 1 None LEFT)
     = Inr ([], PickItemTask 1 None LEFT None, generate_basic 1000)"
  by (simp add: PickItemTask_init_def PickItemTask_start_def find_closest_delivering_within_def
      get_entity_def generate_basic_def State_init_def)

text \<open>The theorem for a pick in the empty world: nothing to pick, no action, no job.\<close>

theorem empty_start_and_job_witness:
  "start (generate_basic 1000) (PickItemTask_init 1 None LEFT)
     = Inr ([], PickItemTask 1 None LEFT None, generate_basic 1000)
   \<and> get_job (PickItemTask 1 None LEFT None) = None"
  using empty_start_and_job[OF empty_world_pick] empty_world_pick by blast

lemma chopping_world_entities:
  "get_entity chopping_world 1 = Some armed_pirate"
  "get_entity chopping_world 2 = Some (Axe_init 2 None)"
  "get_entity chopping_world 3 = Some (Spruce_init 3 (Some here))"
  by (simp_all add: get_entity_def chopping_world_def State_init_def armed_pirate_def
      Pirate_init_def Axe_init_def Spruce_init_def)

lemma chopping_world_distance:
  "calculate_distance chopping_world armed_pirate (Spruce_init 3 (Some here)) = Inr (Some 0)"
  by (simp add: calculate_distance_def armed_pirate_def Pirate_init_def Spruce_init_def
      chopping_world_def State_init_def test_elevation_def get_radius_def distance_here)

lemma spruce_absorbs_pain:
  "get_first_absorbed (features (Spruce_init 3 (Some here)))
     (delivery_claims (features (Axe_init 2 None))) = Some PAIN"
  by (simp add: get_first_absorbed_def delivery_claims_def absorbs_claim_def Spruce_init_def
      Axe_init_def no_features_def)

text \<open>
  A pirate uses the axe in its hand on the spruce beside it. The first claim the spruce
  absorbs is PAIN: \<open>start\<close> returns the empty list, and \<open>get_job()\<close> returns a
  \<open>DamageJob\<close>.
\<close>

theorem UseItemTask_empty_start_with_job_counterexample:
  "get_first_absorbed (features (Spruce_init 3 (Some here)))
     (delivery_claims (features (Axe_init 2 None))) = Some PAIN
   \<and> start chopping_world (UseItemTask_init 1 2 (Some 3) LEFT)
       = Inr ([], UseItemTask 1 2 (Some 3) LEFT (Some (DamageJob 1 3 2 LEFT [FinishedEvent 1])),
              chopping_world)
   \<and> get_job (UseItemTask 1 2 (Some 3) LEFT (Some (DamageJob 1 3 2 LEFT [FinishedEvent 1])))
       = Some (DamageJob 1 3 2 LEFT [FinishedEvent 1])"
  by (simp add: UseItemTask_init_def UseItemTask_start_def chopping_world_entities
      chopping_world_distance spruce_absorbs_pain UseItemTask_MAX_DISTANCE_def)


section \<open>Dying and dropping\<close>

lemma fold_max_bounds:
  fixes a :: int
  shows "a \<le> fold max xs a" and "x \<in> set xs \<Longrightarrow> x \<le> fold max xs a"
proof -
  have "a \<le> fold max xs a \<and> (\<forall>x\<in>set xs. x \<le> fold max xs a)"
  proof (induction xs arbitrary: a)
    case Nil
    show ?case by simp
  next
    case (Cons y ys)
    have "max y a \<le> fold max ys (max y a)" "\<forall>x\<in>set ys. x \<le> fold max ys (max y a)"
      using Cons.IH[of "max y a"] by simp_all
    then show ?case by auto
  qed
  then show "a \<le> fold max xs a" and "x \<in> set xs \<Longrightarrow> x \<le> fold max xs a" by simp_all
qed

lemma fresh_id_above: "e \<in> set (entities st) \<Longrightarrow> ent_id e < fresh_id st"
  using fold_max_bounds(2)[of "ent_id e" "map ent_id (entities st)" "- 1"]
  by (simp add: fresh_id_def)

lemma fresh_id_nonnegative: "0 \<le> fresh_id st"
  using fold_max_bounds(1)[of "- 1" "map ent_id (entities st)"] by (simp add: fresh_id_def)

lemma get_entity_fresh_id: "get_entity st (fresh_id st) = None"
proof -
  have "ent_id e \<noteq> fresh_id st" if "e \<in> set (entities st)" for e
    using fresh_id_above[OF that] by simp
  then show ?thesis by (auto simp: get_entity_def find_None_iff)
qed

lemma add_entity_placeholder:
  assumes "ent_id d < 0"
  shows "add_entity st d
           = (st\<lparr>entities := entities st @ [d\<lparr>ent_id := fresh_id st\<rparr>]\<rparr>, d\<lparr>ent_id := fresh_id st\<rparr>)"
  using assms by (simp add: add_entity_def Let_def get_entity_fresh_id)

lemma add_entities_placeholders:
  assumes "\<forall>d\<in>set ds. ent_id d < 0" and "add_entities st ds = (st', ds')"
  shows "entities st' = entities st @ ds'
       \<and> elevation_function st' = elevation_function st
       \<and> map (\<lambda>d. d\<lparr>ent_id := 0\<rparr>) ds' = map (\<lambda>d. d\<lparr>ent_id := 0\<rparr>) ds
       \<and> (\<forall>d'\<in>set ds'. fresh_id st \<le> ent_id d')
       \<and> distinct (map ent_id ds')"
  using assms
proof (induction ds arbitrary: st st' ds')
  case Nil
  then show ?case by simp
next
  case (Cons d ds)
  define d1 where "d1 = d\<lparr>ent_id := fresh_id st\<rparr>"
  define st1 where "st1 = st\<lparr>entities := entities st @ [d1]\<rparr>"
  have a: "add_entity st d = (st1, d1)"
    using Cons.prems(1) by (simp add: add_entity_placeholder st1_def d1_def)
  obtain st2 ds2 where r: "add_entities st1 ds = (st2, ds2)" by (cases "add_entities st1 ds")
  have e: "st' = st2" "ds' = d1 # ds2" using Cons.prems(2) a r by simp_all
  have ih: "entities st2 = entities st1 @ ds2"
      "elevation_function st2 = elevation_function st1"
      "map (\<lambda>d. d\<lparr>ent_id := 0\<rparr>) ds2 = map (\<lambda>d. d\<lparr>ent_id := 0\<rparr>) ds"
      "\<forall>d'\<in>set ds2. fresh_id st1 \<le> ent_id d'"
      "distinct (map ent_id ds2)"
    using Cons.IH[OF _ r] Cons.prems(1) by simp_all
  have lt: "fresh_id st < fresh_id st1"
    using fresh_id_above[of d1 st1] by (simp add: st1_def d1_def)
  have "ent_id d1 \<notin> set (map ent_id ds2)"
    using ih(4) lt by (auto simp: d1_def)
  moreover have "\<forall>d'\<in>set (d1 # ds2). fresh_id st \<le> ent_id d'"
    using ih(4) lt by (auto simp: d1_def)
  ultimately show ?case
    using ih e by (simp add: st1_def d1_def)
qed

lemma generate_drops_placeholders:
  assumes "generate_drops s = Inr ds"
  shows "length ds = 3 \<and> (\<forall>d\<in>set ds. ent_id d = - 1 \<and> kind d = Log \<and> position d = position s)"
  using assms by (auto simp: generate_drops_def Log_init_def split: if_splits)

lemma spruce_world_drops: "generate_drops (Spruce_init 7 (Some here)) = Inr spruce_drops"
  by (simp add: generate_drops_def Spruce_init_def spruce_drops_def upt_rec)

lemma spruce_world_dier: "get_entity spruce_world 7 = Some (Spruce_init 7 (Some here))"
  by (simp add: get_entity_def spruce_world_def State_init_def Spruce_init_def)

lemma spruce_world_add_entities:
  "add_entities spruce_world spruce_drops
     = (felled_world, [Log_init 8 (Some here), Log_init 9 (Some here), Log_init 10 (Some here)])"
  by (simp add: spruce_drops_def spruce_world_def felled_world_def State_init_def add_entity_def
      fresh_id_def get_entity_def Let_def Log_init_def Spruce_init_def)

lemma spruce_world_start:
  "start spruce_world (DieAndDropTask_init 7 spruce_drops)
     = Inr ([CreateActorsAction
               [\<lparr>actor_id = 8, actor_name = ''log'', actor_position = Some here\<rparr>,
                \<lparr>actor_id = 9, actor_name = ''log'', actor_position = Some here\<rparr>,
                \<lparr>actor_id = 10, actor_name = ''log'', actor_position = Some here\<rparr>],
             DeleteActorsAction [7]],
            DieAndDropTask 7
              [Log_init 8 (Some here), Log_init 9 (Some here), Log_init 10 (Some here)]
              (WaitJob DieAndDropTask_DIE_DURATION [FinishedEvent 7]),
            felled_world)"
  by (simp add: DieAndDropTask_init_def DieAndDropTask_start_def spruce_world_dier
      spruce_world_add_entities get_name_def Log_init_def)

text \<open>
  Claim C4. When \<open>DieAndDropTask.start\<close> finds the dier and the drops carry the
  placeholder id of a new entity (a negative one), the drops are appended to the registry
  under ids that are pairwise distinct and distinct from the id of every entity registered
  before; the actors of the \<open>CreateActorsAction\<close> carry the same ids, and apart from its id
  no drop changes. The drops of \<open>Spruce.generate_drops\<close> are three logs with the
  placeholder id \<open>-1\<close>, so they are such drops.
\<close>

theorem drops_get_fresh_ids:
  assumes "get_entity st dier_id = Some dier" and "\<forall>d\<in>set drops. ent_id d < 0"
  shows "(\<exists>drops' st'.
            start st (DieAndDropTask_init dier_id drops)
              = Inr ([CreateActorsAction
                        (map (\<lambda>d. \<lparr>actor_id = ent_id d, actor_name = get_name d,
                                   actor_position = position d\<rparr>) drops'),
                      DeleteActorsAction [dier_id]],
                     DieAndDropTask dier_id drops'
                       (WaitJob DieAndDropTask_DIE_DURATION [FinishedEvent dier_id]),
                     st')
            \<and> entities st' = entities st @ drops'
            \<and> map (\<lambda>d. d\<lparr>ent_id := 0\<rparr>) drops' = map (\<lambda>d. d\<lparr>ent_id := 0\<rparr>) drops
            \<and> distinct (map ent_id drops')
            \<and> (\<forall>d'\<in>set drops'. \<forall>e\<in>set (entities st). ent_id d' \<noteq> ent_id e))
       \<and> (\<forall>s ds. generate_drops s = Inr ds \<longrightarrow>
             length ds = 3 \<and> (\<forall>d\<in>set ds. ent_id d < 0 \<and> kind d = Log))"
proof
  obtain st' drops' where a: "add_entities st drops = (st', drops')"
    by (cases "add_entities st drops")
  note p = add_entities_placeholders[OF assms(2) a]
  have "\<forall>d'\<in>set drops'. \<forall>e\<in>set (entities st). ent_id d' \<noteq> ent_id e"
    using p fresh_id_above[of _ st] by fastforce
  moreover have "start st (DieAndDropTask_init dier_id drops)
      = Inr ([CreateActorsAction
                (map (\<lambda>d. \<lparr>actor_id = ent_id d, actor_name = get_name d,
                           actor_position = position d\<rparr>) drops'),
              DeleteActorsAction [dier_id]],
             DieAndDropTask dier_id drops'
               (WaitJob DieAndDropTask_DIE_DURATION [FinishedEvent dier_id]),
             st')"
    using assms(1) a by (simp add: DieAndDropTask_init_def DieAndDropTask_start_def)
  ultimately show "\<exists>drops' st'.
            start st (DieAndDropTask_init dier_id drops)
              = Inr ([CreateActorsAction
                        (map (\<lambda>d. \<lparr>actor_id = ent_id d, actor_name = get_name d,
                                   actor_position = position d\<rparr>) drops'),
                      DeleteActorsAction [dier_id]],
                     DieAndDropTask dier_id drops'
                       (WaitJob DieAndDropTask_DIE_DURATION [FinishedEvent dier_id]),
                     st')
            \<and> entities st' = entities st @ drops'
            \<and> map (\<lambda>d. d\<lparr>ent_id := 0\<rparr>) drops' = map (\<lambda>d. d\<lparr>ent_id := 0\<rparr>) drops
            \<and> distinct (map ent_id drops')
            \<and> (\<forall>d'\<in>set drops'. \<forall>e\<in>set (entities st). ent_id d' \<noteq> ent_id e)"
    using p by blast
next
  show "\<forall>s ds. generate_drops s = Inr ds \<longrightarrow>
             length ds = 3 \<and> (\<forall>d\<in>set ds. ent_id d < 0 \<and> kind d = Log)"
    using generate_drops_placeholders by fastforce
qed

lemma spruce_drops_placeholders: "\<forall>d\<in>set spruce_drops. ent_id d < 0"
  by (simp add: spruce_drops_def Log_init_def)

text \<open>
  The theorem for the spruce with id 7 alone in the world: its three logs are registered
  under the ids 8, 9 and 10.
\<close>

theorem drops_get_fresh_ids_witness:
  "generate_drops (Spruce_init 7 (Some here)) = Inr spruce_drops
   \<and> (\<exists>drops' st'.
         start spruce_world (DieAndDropTask_init 7 spruce_drops)
           = Inr ([CreateActorsAction
                    (map (\<lambda>d. \<lparr>actor_id = ent_id d, actor_name = get_name d,
                               actor_position = position d\<rparr>) drops'),
                   DeleteActorsAction [7]],
                  DieAndDropTask 7 drops' (WaitJob DieAndDropTask_DIE_DURATION [FinishedEvent 7]),
                  st')
         \<and> entities st' = entities spruce_world @ drops'
         \<and> distinct (map ent_id drops')
         \<and> map ent_id drops' = [8, 9, 10]
         \<and> map ent_id (entities spruce_world) = [7])"
proof -
  from drops_get_fresh_ids[OF spruce_world_dier spruce_drops_placeholders]
  obtain drops' st' where
    r: "start spruce_world (DieAndDropTask_init 7 spruce_drops)
           = Inr ([CreateActorsAction
                    (map (\<lambda>d. \<lparr>actor_id = ent_id d, actor_name = get_name d,
                               actor_position = position d\<rparr>) drops'),
                   DeleteActorsAction [7]],
                  DieAndDropTask 7 drops' (WaitJob DieAndDropTask_DIE_DURATION [FinishedEvent 7]),
                  st')"
       "entities st' = entities spruce_world @ drops'"
       "distinct (map ent_id drops')"
    by blast
  from r(1) have "drops' = [Log_init 8 (Some here), Log_init 9 (Some here), Log_init 10 (Some here)]"
    by (simp add: spruce_world_start)
  then have i: "map ent_id drops' = [8, 9, 10]" by (simp add: Log_init_def)
  have j: "map ent_id (entities spruce_world) = [7]"
    by (simp add: spruce_world_def State_init_def Spruce_init_def)
  show ?thesis
    by (intro conjI exI[of _ drops'] exI[of _ st']) (fact spruce_world_drops r i j)+
qed

text \<open>
  Claim C3. \<open>DieAndDropTask.start\<close> registers the drops and returns the
  \<open>CreateActorsAction\<close> followed by the \<open>DeleteActorsAction\<close>, but it does not remove the
  dier: after the spruce with id 7 has died, the registry still holds it beside its three
  logs, and \<open>finish\<close> changes nothing.
\<close>

theorem DieAndDropTask_keeps_dier:
  "start spruce_world (DieAndDropTask_init 7 spruce_drops)
     = Inr ([CreateActorsAction
               [\<lparr>actor_id = 8, actor_name = ''log'', actor_position = Some here\<rparr>,
                \<lparr>actor_id = 9, actor_name = ''log'', actor_position = Some here\<rparr>,
                \<lparr>actor_id = 10, actor_name = ''log'', actor_position = Some here\<rparr>],
             DeleteActorsAction [7]],
            DieAndDropTask 7
              [Log_init 8 (Some here), Log_init 9 (Some here), Log_init 10 (Some here)]
              (WaitJob DieAndDropTask_DIE_DURATION [FinishedEvent 7]),
            felled_world)
   \<and> get_entity felled_world 7 = Some (Spruce_init 7 (Some here))
   \<and> map ent_id (entities felled_world) = [7, 8, 9, 10]
   \<and> DieAndDropTask_finish felled_world = ([], felled_world)"
  by (simp add: spruce_world_start DieAndDropTask_finish_def)
     (simp add: get_entity_def felled_world_def State_init_def Spruce_init_def Log_init_def)

text \<open>
  This does not depend on the world: whenever the dier is registered and the drops carry
  placeholder ids, the dier is still registered after \<open>start\<close>.
\<close>

lemma DieAndDropTask_start_keeps_dier:
  assumes "get_entity st dier_id = Some dier" and "\<forall>d\<in>set drops. ent_id d < 0"
    and "start st (DieAndDropTask_init dier_id drops) = Inr (acts, t', st')"
  shows "get_entity st' dier_id = Some dier"
proof -
  obtain st'' drops' where a: "add_entities st drops = (st'', drops')"
    by (cases "add_entities st drops")
  have "st' = st''"
    using assms(1,3) a by (simp add: DieAndDropTask_init_def DieAndDropTask_start_def)
  then have "entities st' = entities st @ drops'"
    using add_entities_placeholders[OF assms(2) a] by simp
  moreover have "find P xs = Some x \<Longrightarrow> find P (xs @ ys) = Some x" for P xs ys and x :: Entity
    by (induction xs) (auto split: if_splits)
  ultimately show ?thesis
    using assms(1) by (simp add: get_entity_def)
qed


section \<open>Merging two stacks\<close>

lemma find_update_by_id:
  assumes "\<And>e. ent_id (f e) = ent_id e"
  shows "find (\<lambda>e. ent_id e = j) (map (\<lambda>e. if ent_id e = i then f e else e) es)
           = map_option (\<lambda>e. if ent_id e = i then f e else e) (find (\<lambda>e. ent_id e = j) es)"
  using assms by (induction es) auto

lemma get_entity_update_entity:
  assumes "\<And>e. ent_id (f e) = ent_id e"
  shows "get_entity (update_entity st i f) j
           = map_option (\<lambda>e. if ent_id e = i then f e else e) (get_entity st j)"
  using find_update_by_id[of f j i "entities st", OF assms]
  by (simp add: get_entity_def update_entity_def)

lemma get_entity_set_stack_size:
  "get_entity (set_stack_size st i n) j
     = map_option
         (\<lambda>e. if ent_id e = i \<and> stackable (features e) \<noteq> None
              then e\<lparr>features := (features e)\<lparr>stackable := Some n\<rparr>\<rparr> else e)
         (get_entity st j)"
proof -
  have "get_entity (set_stack_size st i n) j
      = map_option (\<lambda>e. if ent_id e = i
                          then (if stackable (features e) = None then e
                                else e\<lparr>features := (features e)\<lparr>stackable := Some n\<rparr>\<rparr>)
                          else e) (get_entity st j)"
    unfolding set_stack_size_def by (rule get_entity_update_entity) simp
  also have "\<dots> = map_option
         (\<lambda>e. if ent_id e = i \<and> stackable (features e) \<noteq> None
              then e\<lparr>features := (features e)\<lparr>stackable := Some n\<rparr>\<rparr> else e)
         (get_entity st j)"
    by (rule arg_cong[where f = "\<lambda>g. map_option g (get_entity st j)"]) auto
  finally show ?thesis .
qed

lemma get_entity_delete_entity:
  "get_entity (delete_entity st i) j = (if j = i then None else get_entity st j)"
proof -
  have f: "find (\<lambda>e. ent_id e = j) (filter (\<lambda>e. ent_id e \<noteq> i) es)
          = (if j = i then None else find (\<lambda>e. ent_id e = j) es)" for es
    by (induction es) auto
  have "entities (delete_entity st i) = filter (\<lambda>e. ent_id e \<noteq> i) (entities st)"
    by (simp add: delete_entity_def)
  then show ?thesis unfolding get_entity_def by (simp only: f)
qed

lemma get_entity_id: "get_entity st i = Some e \<Longrightarrow> ent_id e = i"
  by (auto simp: get_entity_def find_Some_iff)

lemma map_of_filter_other: "map_of (filter (\<lambda>p. fst p \<noteq> i) ps) i = None"
  by (induction ps) auto

lemma get_pocket_entry_set_pocket_entry:
  "get_pocket_entry (set_pocket_entry inv' i entry) i = entry"
  by (cases entry) (simp_all add: get_pocket_entry_def set_pocket_entry_def map_of_filter_other)

lemma get_hand_entry_set_pocket_entry:
  "get_hand_entry (set_pocket_entry inv' i entry) hand = get_hand_entry inv' hand"
  by (cases entry; cases hand) (simp_all add: get_hand_entry_def set_pocket_entry_def)

lemma get_hand_entry_set_hand_entry:
  "get_hand_entry (set_hand_entry inv' hand entry) hand = entry"
  by (cases hand) (simp_all add: get_hand_entry_def set_hand_entry_def)

lemma merge_entities_fit:
  assumes "get_hand_entry inv' hand = Some source"
    and "get_pocket_entry inv' pocket_index = Some target"
    and "entry_essence source = entry_essence target"
    and "entry_quantity source + entry_quantity target \<le> capacity"
  shows "merge_entities capacity st inv' hand pocket_index
     = (delete_entity (set_stack_size st (entry_id target)
                         (entry_quantity source + entry_quantity target)) (entry_id source),
        set_pocket_entry (set_hand_entry inv' hand None) pocket_index
          (Some (target\<lparr>entry_quantity := entry_quantity source + entry_quantity target\<rparr>)))"
  using assms by (simp add: merge_entities_def Let_def)

lemma merge_entities_overflow:
  assumes "get_hand_entry inv' hand = Some source"
    and "get_pocket_entry inv' pocket_index = Some target"
    and "entry_essence source = entry_essence target"
    and "capacity < entry_quantity source + entry_quantity target"
  shows "merge_entities capacity st inv' hand pocket_index
     = (set_stack_size (set_stack_size st (entry_id target) capacity) (entry_id source)
          (entry_quantity source + entry_quantity target - capacity),
        set_pocket_entry
          (set_hand_entry inv' hand
             (Some (source\<lparr>entry_quantity :=
                              entry_quantity source + entry_quantity target - capacity\<rparr>)))
          pocket_index (Some (target\<lparr>entry_quantity := capacity\<rparr>)))"
  using assms by (simp add: merge_entities_def Let_def)

text \<open>
  Claim C2. Let the hand hold a stack of quantity S and the pocket a stack of the same
  essence and quantity T, backed by two different registered stackable entities of these
  sizes, and let C be the capacity of a stack. If \<open>S + T \<le> C\<close>, \<open>merge_entities\<close> empties
  the hand slot, removes the hand stack's entity from the state, and leaves the pocket
  stack, still the same entity, with quantity \<open>S + T\<close>, in the slot and in the entity. If
  \<open>S + T > C\<close>, the pocket stack has quantity C and the hand stack \<open>S + T - C\<close>, in the
  slots and in the entities, which both stay registered. \<open>InventoryUpdateTask.finish\<close>
  with the variant MERGE reports the merged inventory and stores it in the performer.
\<close>

theorem merge_entities_quantities:
  assumes "get_hand_entry inv' hand = Some source"
    and "get_pocket_entry inv' pocket_index = Some target"
    and "entry_essence source = entry_essence target"
    and "entry_id source \<noteq> entry_id target"
    and "entry_quantity source = S"
    and "entry_quantity target = T"
    and "get_entity st (entry_id source) = Some source_entity"
    and "stackable (features source_entity) = Some S"
    and "get_entity st (entry_id target) = Some target_entity"
    and "stackable (features target_entity) = Some T"
    and "merge_entities C st inv' hand pocket_index = (st', inv'')"
  shows "(S + T \<le> C \<longrightarrow>
            get_hand_entry inv'' hand = None
            \<and> get_entity st' (entry_id source) = None
            \<and> get_pocket_entry inv'' pocket_index = Some (target\<lparr>entry_quantity := S + T\<rparr>)
            \<and> map_option (\<lambda>e. stackable (features e)) (get_entity st' (entry_id target))
                = Some (Some (S + T)))
       \<and> (C < S + T \<longrightarrow>
            get_pocket_entry inv'' pocket_index = Some (target\<lparr>entry_quantity := C\<rparr>)
            \<and> get_hand_entry inv'' hand = Some (source\<lparr>entry_quantity := S + T - C\<rparr>)
            \<and> map_option (\<lambda>e. stackable (features e)) (get_entity st' (entry_id target))
                = Some (Some C)
            \<and> map_option (\<lambda>e. stackable (features e)) (get_entity st' (entry_id source))
                = Some (Some (S + T - C)))
       \<and> (\<forall>performer_id performer'.
            get_entity st performer_id = Some performer'
            \<longrightarrow> inventory (features performer') = Some inv'
            \<longrightarrow> InventoryUpdateTask_finish C st performer_id hand pocket_index MERGE
                  = ([UpdateInventoryAction performer_id inv''],
                     update_entity st' performer_id
                       (\<lambda>e. e\<lparr>features := (features e)\<lparr>inventory := Some inv''\<rparr>\<rparr>)))"
proof (intro conjI impI allI)
  assume fit: "S + T \<le> C"
  have m: "st' = delete_entity (set_stack_size st (entry_id target) (S + T)) (entry_id source)"
      "inv'' = set_pocket_entry (set_hand_entry inv' hand None) pocket_index
                 (Some (target\<lparr>entry_quantity := S + T\<rparr>))"
    using merge_entities_fit[OF assms(1,2,3), of C st] fit assms(5,6,11) by simp_all
  show "get_hand_entry inv'' hand = None"
    by (simp add: m get_hand_entry_set_pocket_entry get_hand_entry_set_hand_entry)
  show "get_entity st' (entry_id source) = None"
    by (simp add: m get_entity_delete_entity)
  show "get_pocket_entry inv'' pocket_index = Some (target\<lparr>entry_quantity := S + T\<rparr>)"
    by (simp add: m get_pocket_entry_set_pocket_entry)
  show "map_option (\<lambda>e. stackable (features e)) (get_entity st' (entry_id target))
          = Some (Some (S + T))"
    using assms(4,9,10) get_entity_id[OF assms(9)]
    by (simp add: m get_entity_delete_entity get_entity_set_stack_size)
next
  assume over: "C < S + T"
  have m: "st' = set_stack_size (set_stack_size st (entry_id target) C) (entry_id source)
                   (S + T - C)"
      "inv'' = set_pocket_entry
                 (set_hand_entry inv' hand (Some (source\<lparr>entry_quantity := S + T - C\<rparr>)))
                 pocket_index (Some (target\<lparr>entry_quantity := C\<rparr>))"
    using merge_entities_overflow[OF assms(1,2,3), of C st] over assms(5,6,11) by simp_all
  show "get_pocket_entry inv'' pocket_index = Some (target\<lparr>entry_quantity := C\<rparr>)"
    by (simp add: m get_pocket_entry_set_pocket_entry)
  show "get_hand_entry inv'' hand = Some (source\<lparr>entry_quantity := S + T - C\<rparr>)"
    by (simp add: m get_hand_entry_set_pocket_entry get_hand_entry_set_hand_entry)
  show "map_option (\<lambda>e. stackable (features e)) (get_entity st' (entry_id target))
          = Some (Some C)"
    using assms(4,9,10) get_entity_id[OF assms(9)] by (simp add: m get_entity_set_stack_size)
  show "map_option (\<lambda>e. stackable (features e)) (get_entity st' (entry_id source))
          = Some (Some (S + T - C))"
    using assms(4,7,8) get_entity_id[OF assms(7)] by (simp add: m get_entity_set_stack_size)
next
  fix performer_id performer'
  assume "get_entity st performer_id = Some performer'"
    and "inventory (features performer') = Some inv'"
  then show "InventoryUpdateTask_finish C st performer_id hand pocket_index MERGE
      = ([UpdateInventoryAction performer_id inv''],
         update_entity st' performer_id
           (\<lambda>e. e\<lparr>features := (features e)\<lparr>inventory := Some inv''\<rparr>\<rparr>))"
    using assms(11) by (simp add: InventoryUpdateTask_finish_def)
qed

lemma merge_inventory_slots:
  "get_hand_entry (merge_inventory n1 n2) LEFT
     = Some \<lparr>entry_id = 1, entry_essence = ROCKS, entry_quantity = n1, entry_codename = ''''\<rparr>"
  "get_pocket_entry (merge_inventory n1 n2) 2
     = Some \<lparr>entry_id = 2, entry_essence = ROCKS, entry_quantity = n2, entry_codename = ''''\<rparr>"
  by (simp_all add: merge_inventory_def insert_entry_def store_entry_def set_hand_entry_def
      set_pocket_entry_def get_hand_entry_def get_pocket_entry_def empty_inventory_def)

lemma merge_world_entities:
  "get_entity (merge_world n1 n2) 1 = Some (rock_of_size 1 n1)"
  "get_entity (merge_world n1 n2) 2 = Some (rock_of_size 2 n2)"
  "stackable (features (rock_of_size i n)) = Some n"
  by (simp_all add: get_entity_def merge_world_def State_init_def rock_of_size_def Rocks_init_def)

text \<open>
  The theorem in the worlds of the two tests, with stacks of at most 20: two stacks of 2
  become one stack of 4 and the entity of the hand stack is gone; two stacks of 12 become
  a pocket stack of 20 and a hand stack of 4.
\<close>

theorem merge_entities_quantities_witness:
  "get_hand_entry (snd (merge_entities 20 (merge_world 2 2) (merge_inventory 2 2) LEFT 2)) LEFT
     = None
   \<and> get_entity (fst (merge_entities 20 (merge_world 2 2) (merge_inventory 2 2) LEFT 2)) 1 = None
   \<and> map_option entry_quantity
       (get_pocket_entry (snd (merge_entities 20 (merge_world 2 2) (merge_inventory 2 2) LEFT 2)) 2)
       = Some 4
   \<and> map_option (\<lambda>e. stackable (features e))
       (get_entity (fst (merge_entities 20 (merge_world 2 2) (merge_inventory 2 2) LEFT 2)) 2)
       = Some (Some 4)
   \<and> map_option entry_quantity
       (get_pocket_entry
          (snd (merge_entities 20 (merge_world 12 12) (merge_inventory 12 12) LEFT 2)) 2)
       = Some 20
   \<and> map_option entry_quantity
       (get_hand_entry
          (snd (merge_entities 20 (merge_world 12 12) (merge_inventory 12 12) LEFT 2)) LEFT)
       = Some 4
   \<and> map_option (\<lambda>e. stackable (features e))
       (get_entity (fst (merge_entities 20 (merge_world 12 12) (merge_inventory 12 12) LEFT 2)) 2)
       = Some (Some 20)
   \<and> map_option (\<lambda>e. stackable (features e))
       (get_entity (fst (merge_entities 20 (merge_world 12 12) (merge_inventory 12 12) LEFT 2)) 1)
       = Some (Some 4)"
proof -
  have both: "(n1 + n2 \<le> 20 \<longrightarrow>
         get_hand_entry (snd (merge_entities 20 (merge_world n1 n2) (merge_inventory n1 n2) LEFT 2))
             LEFT = None
         \<and> get_entity (fst (merge_entities 20 (merge_world n1 n2) (merge_inventory n1 n2) LEFT 2))
             1 = None
         \<and> map_option entry_quantity
             (get_pocket_entry
                (snd (merge_entities 20 (merge_world n1 n2) (merge_inventory n1 n2) LEFT 2)) 2)
             = Some (n1 + n2)
         \<and> map_option (\<lambda>e. stackable (features e))
             (get_entity (fst (merge_entities 20 (merge_world n1 n2) (merge_inventory n1 n2) LEFT 2))
                2) = Some (Some (n1 + n2)))
      \<and> (20 < n1 + n2 \<longrightarrow>
         map_option entry_quantity
             (get_pocket_entry
                (snd (merge_entities 20 (merge_world n1 n2) (merge_inventory n1 n2) LEFT 2)) 2)
             = Some 20
         \<and> map_option entry_quantity
             (get_hand_entry
                (snd (merge_entities 20 (merge_world n1 n2) (merge_inventory n1 n2) LEFT 2)) LEFT)
             = Some (n1 + n2 - 20)
         \<and> map_option (\<lambda>e. stackable (features e))
             (get_entity (fst (merge_entities 20 (merge_world n1 n2) (merge_inventory n1 n2) LEFT 2))
                2) = Some (Some 20)
         \<and> map_option (\<lambda>e. stackable (features e))
             (get_entity (fst (merge_entities 20 (merge_world n1 n2) (merge_inventory n1 n2) LEFT 2))
                1) = Some (Some (n1 + n2 - 20)))" for n1 n2
    using merge_entities_quantities[of "merge_inventory n1 n2" LEFT _ 2 _ n1 n2
        "merge_world n1 n2" "rock_of_size 1 n1" "rock_of_size 2 n2" 20
        "fst (merge_entities 20 (merge_world n1 n2) (merge_inventory n1 n2) LEFT 2)"
        "snd (merge_entities 20 (merge_world n1 n2) (merge_inventory n1 n2) LEFT 2)",
        OF merge_inventory_slots]
    by (simp add: merge_world_entities)
  show ?thesis using both[of 2 2] both[of 12 12] by simp
qed


end
